theory Spec2Isabelle
  imports Main
begin

section \<open>The subscription bot: data model\<close>

text \<open>
  The program is one Python module, \<^verbatim>\<open>bot.py\<close>: a Telegram bot that keeps a table of
  users in SQLite, asks the Bot API whether a user is a member of a required channel,
  sends a bonus file once, and lets the administrators broadcast a text to every user
  through a three-step dialogue kept in the dispatcher's FSM storage.

  The embedding threads an explicit world through every handler: the users table, the
  FSM storage, the state of the Bot API (abstract: the handlers never look into it) and
  the trace of everything a handler did, in order. A handler returns the exception that
  left it, if any, and the world at that moment.
\<close>

subsection \<open>Exceptions\<close>

text \<open>
  \<^verbatim>\<open>TelegramBadRequest\<close> is the one exception the module names; the other aiogram
  exceptions stand for every failure of a Bot API call that is not a bad request.
  \<^verbatim>\<open>AttributeError\<close> and \<^verbatim>\<open>KeyError\<close> are what Python raises for an attribute of
  \<^verbatim>\<open>None\<close> and for a missing dictionary key.
\<close>

datatype exn =
    TelegramBadRequest
  | TelegramForbiddenError
  | TelegramNetworkError
  | TelegramRetryAfter
  | TelegramServerError
  | AttributeError
  | KeyError

subsection \<open>Python strings\<close>

text \<open>
  A Python \<^verbatim>\<open>str\<close> is a sequence of Unicode code points. \<open>py_str\<close> gives the code points
  of a literal written in ASCII.
\<close>

type_synonym ustr = "nat list"

definition py_str :: "string \<Rightarrow> ustr" where
  "py_str lit = map of_char lit"

subsection \<open>The users table\<close>

text \<open>
  \<^verbatim>\<open>CREATE TABLE users (user_id INTEGER PRIMARY KEY, username TEXT, first_name TEXT,
  added_at TEXT DEFAULT CURRENT_TIMESTAMP, bonus_sent INTEGER DEFAULT 0)\<close>.
  The table is the list of its rows in the order \<^verbatim>\<open>SELECT user_id FROM users\<close> yields them,
  each row keyed by its \<open>user_id\<close>. SQLite keeps a table with an integer primary key in
  the order of that key and scans it in that order, so a new row goes to its place among
  the keys. The column \<open>added_at\<close> is never read by the module and is left out. The
  statements are taken to succeed: the module handles no database error.
\<close>

record user_row =
  username :: "ustr option"
  first_name :: "ustr option"
  bonus_sent :: int

type_synonym users_table = "(int \<times> user_row) list"

definition sql_insert_or_ignore ::
  "int \<Rightarrow> ustr option \<Rightarrow> ustr option \<Rightarrow> users_table \<Rightarrow> users_table" where
  \<comment> \<open>\<^verbatim>\<open>INSERT OR IGNORE INTO users(user_id, username, first_name) VALUES(?,?,?)\<close>\<close>
  "sql_insert_or_ignore uid un fn tbl =
     (if uid \<in> fst ` set tbl then tbl
      else insort_key fst (uid, \<lparr>username = un, first_name = fn, bonus_sent = 0\<rparr>) tbl)"

definition sql_select_user_ids :: "users_table \<Rightarrow> int list" where
  \<comment> \<open>\<^verbatim>\<open>SELECT user_id FROM users\<close>, then \<^verbatim>\<open>[r[0] for r in rows]\<close>\<close>
  "sql_select_user_ids tbl = map fst tbl"

definition sql_select_bonus_sent :: "int \<Rightarrow> users_table \<Rightarrow> int option" where
  \<comment> \<open>\<^verbatim>\<open>SELECT bonus_sent FROM users WHERE user_id=?\<close>, then \<^verbatim>\<open>fetchone()\<close>\<close>
  "sql_select_bonus_sent uid tbl = map_option bonus_sent (map_of tbl uid)"

definition sql_update_bonus_sent :: "int \<Rightarrow> users_table \<Rightarrow> users_table" where
  \<comment> \<open>\<^verbatim>\<open>UPDATE users SET bonus_sent=1 WHERE user_id=?\<close>\<close>
  "sql_update_bonus_sent uid tbl =
     map (\<lambda>(k, r). if k = uid then (k, r\<lparr>bonus_sent := 1\<rparr>) else (k, r)) tbl"

subsection \<open>The FSM storage\<close>

text \<open>
  \<^verbatim>\<open>class Broadcast(StatesGroup)\<close> has the two states below; no state at all is the idle
  phase. The storage keeps, for every pair of chat and user, the state and the data
  dictionary, of which the module uses the key \<^verbatim>\<open>text\<close> only. Its value is the text of a
  message, which aiogram gives as \<^verbatim>\<open>None\<close> when the message carries none.
\<close>

datatype broadcast_state = waiting_text | waiting_confirm

record fsm_ctx =
  fsm_state :: "broadcast_state option"
  fsm_data :: "string \<rightharpoonup> ustr option"

type_synonym fsm_key = "int \<times> int"

subsection \<open>Incoming updates\<close>

text \<open>
  A message has a text, or a caption when it is a photo or a document, or neither. A
  callback query comes from a button under a message of the bot.
\<close>

record message =
  msg_chat :: int
  msg_from :: int
  msg_username :: "ustr option"
  msg_first_name :: "ustr option"
  msg_text :: "ustr option"
  msg_caption :: "ustr option"

record callback_query =
  cq_from :: int
  cq_chat :: int

subsection \<open>What a handler does: the trace\<close>

text \<open>
  The literal texts the module sends are Cyrillic; each one is named here after the
  place it is sent from. Every call of the Bot API is in the trace with its outcome:
  \<open>None\<close> when it returned, the exception when it raised.
\<close>

datatype notice =
    YourUserId int           \<comment> \<open>\<^verbatim>\<open>my_id\<close>\<close>
  | AlreadySubscribed        \<comment> \<open>\<^verbatim>\<open>start\<close>, subscribed, with \<^verbatim>\<open>open_menu_kb\<close>\<close>
  | Welcome                  \<comment> \<open>\<^verbatim>\<open>start\<close>, not subscribed, with \<^verbatim>\<open>gate_kb\<close>\<close>
  | SubscriptionConfirmed    \<comment> \<open>\<^verbatim>\<open>check_sub\<close>, subscribed\<close>
  | SubscriptionNotFound     \<comment> \<open>\<^verbatim>\<open>check_sub\<close>, not subscribed (alert)\<close>
  | AdminPanel               \<comment> \<open>\<^verbatim>\<open>admin_panel\<close>\<close>
  | UserCount nat            \<comment> \<open>\<^verbatim>\<open>stats\<close>\<close>
  | SendBroadcastText        \<comment> \<open>\<^verbatim>\<open>broadcast_start\<close>\<close>
  | ConfirmPrompt            \<comment> \<open>\<^verbatim>\<open>broadcast_get_text\<close>: "write YES or /cancel"\<close>
  | NotConfirmed             \<comment> \<open>\<^verbatim>\<open>broadcast_confirm\<close>, first branch\<close>
  | BroadcastStarted         \<comment> \<open>\<^verbatim>\<open>broadcast_confirm\<close>, before the loop\<close>
  | BroadcastFinished        \<comment> \<open>\<^verbatim>\<open>broadcast_confirm\<close>, after the loop\<close>
  | Cancelled                \<comment> \<open>\<^verbatim>\<open>cancel\<close>\<close>

datatype event =
    GetChatMember int "exn + string"           \<comment> \<open>\<^verbatim>\<open>bot.get_chat_member(REQUIRED_CHANNEL, uid)\<close>\<close>
  | SendDocument int "exn option"              \<comment> \<open>\<^verbatim>\<open>bot.send_document(uid, doc, caption)\<close>\<close>
  | SendMessage int "ustr option" "exn option" \<comment> \<open>\<^verbatim>\<open>message.bot.send_message(uid, text)\<close>\<close>
  | Sleep                                      \<comment> \<open>\<^verbatim>\<open>asyncio.sleep(0.05)\<close>\<close>
  | Answer int notice "exn option"             \<comment> \<open>\<^verbatim>\<open>message.answer(...)\<close>, to the chat\<close>
  | EditText int notice "exn option"           \<comment> \<open>\<^verbatim>\<open>call.message.edit_text(...)\<close>\<close>
  | CallAnswer int notice "exn option"         \<comment> \<open>\<^verbatim>\<open>call.answer(..., show_alert=True)\<close>\<close>
  | InsertUser int
  | SelectUserIds
  | SelectBonusSent int
  | UpdateBonusSent int
  | SetState fsm_key broadcast_state
  | UpdateData fsm_key "ustr option"
  | GetData fsm_key
  | ClearState fsm_key

subsection \<open>The environment and the world\<close>

text \<open>
  The Bot API is outside the module. Each of its calls is a parameter: it takes the
  state of the outside world and answers with an outcome and the next state, so that an
  outcome may depend on everything that happened before. Any call may raise, the
  replies into the chat an update came from (\<^verbatim>\<open>message.answer\<close>, \<^verbatim>\<open>edit_text\<close>,
  \<^verbatim>\<open>call.answer\<close>) as well as the others. What \<^verbatim>\<open>edit_text\<close> raises includes the
  \<^verbatim>\<open>AttributeError\<close> of a callback query whose message is not accessible.

  \<open>ADMINS\<close> is the set parsed from the environment variable of that name.
  \<open>names_this_bot\<close> tells whether a mention after a command (\<^verbatim>\<open>/cmd@name\<close>) is the user
  name of this bot, which aiogram asks the Bot API for. \<open>unicode_upper\<close> is the upper-case
  mapping of Unicode for the code points beyond ASCII, a table of Python and not of the
  module; one code point may map to several.

  Handlers run one after the other. The one place where the model admits the work of
  other handlers in between is the broadcast: at each of its awaits from the reading of
  the users table on, \<open>concurrent\<close> may rewrite the table in any way.
\<close>

record 'w env =
  ADMINS :: "int set"
  names_this_bot :: "ustr \<Rightarrow> bool"
  unicode_upper :: "nat \<Rightarrow> nat list"
  get_chat_member :: "'w \<Rightarrow> int \<Rightarrow> (exn + string) \<times> 'w"
  send_document :: "'w \<Rightarrow> int \<Rightarrow> exn option \<times> 'w"
  send_message :: "'w \<Rightarrow> int \<Rightarrow> ustr option \<Rightarrow> exn option \<times> 'w"
  send_answer :: "'w \<Rightarrow> int \<Rightarrow> notice \<Rightarrow> exn option \<times> 'w"
  edit_message_text :: "'w \<Rightarrow> int \<Rightarrow> notice \<Rightarrow> exn option \<times> 'w"
  answer_callback_query :: "'w \<Rightarrow> int \<Rightarrow> notice \<Rightarrow> exn option \<times> 'w"
  concurrent :: "'w \<Rightarrow> users_table \<Rightarrow> users_table"

record 'w world =
  users :: users_table
  fsm :: "fsm_key \<Rightarrow> fsm_ctx"
  tg :: 'w
  trace :: "event list"

definition emit :: "event \<Rightarrow> 'w world \<Rightarrow> 'w world" where
  "emit e s = s\<lparr>trace := trace s @ [e]\<rparr>"

definition suspend :: "'w env \<Rightarrow> 'w world \<Rightarrow> 'w world" where
  "suspend E s = s\<lparr>users := concurrent E (tg s) (users s)\<rparr>"

section \<open>Helpers of the module\<close>

definition is_admin :: "'w env \<Rightarrow> int \<Rightarrow> bool" where
  "is_admin E user_id = (user_id \<in> ADMINS E)"

definition save_user ::
  "int \<Rightarrow> ustr option \<Rightarrow> ustr option \<Rightarrow> 'w world \<Rightarrow> 'w world" where
  "save_user user_id un fn s =
     emit (InsertUser user_id) (s\<lparr>users := sql_insert_or_ignore user_id un fn (users s)\<rparr>)"

definition get_all_user_ids :: "'w world \<Rightarrow> int list \<times> 'w world" where
  "get_all_user_ids s = (sql_select_user_ids (users s), emit SelectUserIds s)"

definition is_bonus_sent :: "int \<Rightarrow> 'w world \<Rightarrow> bool \<times> 'w world" where
  \<comment> \<open>\<^verbatim>\<open>bool(row and row[0] == 1)\<close>: no row gives \<^verbatim>\<open>False\<close>\<close>
  "is_bonus_sent user_id s =
     ((case sql_select_bonus_sent user_id (users s) of
         None \<Rightarrow> False
       | Some b \<Rightarrow> b = 1),
      emit (SelectBonusSent user_id) s)"

definition mark_bonus_sent :: "int \<Rightarrow> 'w world \<Rightarrow> 'w world" where
  "mark_bonus_sent user_id s =
     emit (UpdateBonusSent user_id) (s\<lparr>users := sql_update_bonus_sent user_id (users s)\<rparr>)"

definition send_bonus_file :: "'w env \<Rightarrow> int \<Rightarrow> 'w world \<Rightarrow> exn option \<times> 'w world" where
  "send_bonus_file E user_id s =
     (case send_document E (tg s) user_id of
        (r, w) \<Rightarrow> (r, emit (SendDocument user_id r) (s\<lparr>tg := w\<rparr>)))"

definition is_subscribed :: "'w env \<Rightarrow> int \<Rightarrow> 'w world \<Rightarrow> (exn + bool) \<times> 'w world" where
  \<comment> \<open>\<^verbatim>\<open>try: ... return member.status in (...)  except TelegramBadRequest: return False\<close>\<close>
  "is_subscribed E user_id s =
     (case get_chat_member E (tg s) user_id of
        (r, w) \<Rightarrow>
          (let s' = emit (GetChatMember user_id r) (s\<lparr>tg := w\<rparr>) in
           case r of
             Inr status \<Rightarrow> (Inr (status \<in> {''creator'', ''administrator'', ''member''}), s')
           | Inl e \<Rightarrow> (if e = TelegramBadRequest then Inr False else Inl e, s')))"

subsection \<open>Replies and FSM operations\<close>

definition message_answer ::
  "'w env \<Rightarrow> message \<Rightarrow> notice \<Rightarrow> 'w world \<Rightarrow> exn option \<times> 'w world" where
  "message_answer E m n s =
     (case send_answer E (tg s) (msg_chat m) n of
        (r, w) \<Rightarrow> (r, emit (Answer (msg_chat m) n r) (s\<lparr>tg := w\<rparr>)))"

definition message_edit_text ::
  "'w env \<Rightarrow> callback_query \<Rightarrow> notice \<Rightarrow> 'w world \<Rightarrow> exn option \<times> 'w world" where
  "message_edit_text E call n s =
     (case edit_message_text E (tg s) (cq_chat call) n of
        (r, w) \<Rightarrow> (r, emit (EditText (cq_chat call) n r) (s\<lparr>tg := w\<rparr>)))"

definition call_answer ::
  "'w env \<Rightarrow> callback_query \<Rightarrow> notice \<Rightarrow> 'w world \<Rightarrow> exn option \<times> 'w world" where
  "call_answer E call n s =
     (case answer_callback_query E (tg s) (cq_from call) n of
        (r, w) \<Rightarrow> (r, emit (CallAnswer (cq_from call) n r) (s\<lparr>tg := w\<rparr>)))"

definition key_of :: "message \<Rightarrow> fsm_key" where
  "key_of m = (msg_chat m, msg_from m)"

definition state_set_state :: "fsm_key \<Rightarrow> broadcast_state \<Rightarrow> 'w world \<Rightarrow> 'w world" where
  "state_set_state k st s =
     emit (SetState k st) (s\<lparr>fsm := (fsm s)(k := (fsm s k)\<lparr>fsm_state := Some st\<rparr>)\<rparr>)"

definition state_update_data :: "fsm_key \<Rightarrow> ustr option \<Rightarrow> 'w world \<Rightarrow> 'w world" where
  \<comment> \<open>\<^verbatim>\<open>state.update_data(text=...)\<close>\<close>
  "state_update_data k v s =
     emit (UpdateData k v)
       (s\<lparr>fsm := (fsm s)(k := (fsm s k)\<lparr>fsm_data := (fsm_data (fsm s k))(''text'' \<mapsto> v)\<rparr>)\<rparr>)"

definition state_get_data :: "fsm_key \<Rightarrow> 'w world \<Rightarrow> (string \<rightharpoonup> ustr option) \<times> 'w world" where
  "state_get_data k s = (fsm_data (fsm s k), emit (GetData k) s)"

definition idle_ctx :: fsm_ctx where
  "idle_ctx = \<lparr>fsm_state = None, fsm_data = Map.empty\<rparr>"

definition state_clear :: "fsm_key \<Rightarrow> 'w world \<Rightarrow> 'w world" where
  \<comment> \<open>\<^verbatim>\<open>state.clear()\<close>: the state becomes \<^verbatim>\<open>None\<close> and the data empty\<close>
  "state_clear k s = emit (ClearState k) (s\<lparr>fsm := (fsm s)(k := idle_ctx)\<rparr>)"

subsection \<open>Python's \<^verbatim>\<open>str.upper\<close> and aiogram's \<^verbatim>\<open>Command\<close> filter\<close>

text \<open>
  \<^verbatim>\<open>str.upper\<close> maps every code point by itself and joins the results. Within ASCII it
  maps the letters \<open>a\<close> to \<open>z\<close> to \<open>A\<close> to \<open>Z\<close> and nothing else; beyond ASCII it follows the
  table of Unicode.
\<close>

definition upper_cp :: "'w env \<Rightarrow> nat \<Rightarrow> nat list" where
  "upper_cp E c =
     (if c < 128 then (if 97 \<le> c \<and> c \<le> 122 then [c - 32] else [c]) else unicode_upper E c)"

definition upper :: "'w env \<Rightarrow> ustr \<Rightarrow> ustr" where
  "upper E t = concat (map (upper_cp E) t)"

text \<open>
  \<open>is_space\<close> is the white space \<^verbatim>\<open>str.split\<close> splits at: the code points Python counts as
  white space.
\<close>

definition is_space :: "nat \<Rightarrow> bool" where
  "is_space c =
     (c \<in> {9, 10, 11, 12, 13, 28, 29, 30, 31, 32, 133, 160, 5760}
      \<or> (8192 \<le> c \<and> c \<le> 8202)
      \<or> c \<in> {8232, 8233, 8239, 8287, 12288})"

text \<open>
  A \<^verbatim>\<open>Command(...)\<close> filter looks at \<^verbatim>\<open>message.text or message.caption\<close>, and fails when
  that is empty or missing. Of the first word of \<^verbatim>\<open>text.split(maxsplit=1)\<close> the first
  character must be the prefix \<^verbatim>\<open>/\<close>; what follows the prefix is cut at the first \<^verbatim>\<open>@\<close>
  into the command and the mention; a mention that is not empty must name this bot. The
  filter of a handler then compares the command with its own, letter for letter.
\<close>

definition command_source :: "message \<Rightarrow> ustr option" where
  "command_source m =
     (case msg_text m of
        None \<Rightarrow> msg_caption m
      | Some t \<Rightarrow> if t = [] then msg_caption m else Some t)"

definition command_of :: "'w env \<Rightarrow> ustr option \<Rightarrow> ustr option" where
  "command_of E text =
     (case text of
        None \<Rightarrow> None
      | Some t \<Rightarrow>
          (case takeWhile (\<lambda>c. \<not> is_space c) (dropWhile is_space t) of
             [] \<Rightarrow> None
           | c # rest \<Rightarrow>
               if c \<noteq> of_char CHR ''/'' then None
               else
                 (let command = takeWhile (\<lambda>c. c \<noteq> of_char CHR ''@'') rest;
                      mention = drop (Suc (length command)) rest
                  in if mention \<noteq> [] \<and> \<not> names_this_bot E mention then None
                     else Some command)))"

section \<open>Handlers\<close>

definition my_id :: "'w env \<Rightarrow> message \<Rightarrow> 'w world \<Rightarrow> exn option \<times> 'w world" where
  "my_id E m s = message_answer E m (YourUserId (msg_from m)) s"

definition start :: "'w env \<Rightarrow> message \<Rightarrow> 'w world \<Rightarrow> exn option \<times> 'w world" where
  "start E m s =
     (case is_subscribed E (msg_from m)
             (save_user (msg_from m) (msg_username m) (msg_first_name m) s) of
        (Inl e, s') \<Rightarrow> (Some e, s')
      | (Inr ok, s') \<Rightarrow> message_answer E m (if ok then AlreadySubscribed else Welcome) s')"

definition check_sub :: "'w env \<Rightarrow> callback_query \<Rightarrow> 'w world \<Rightarrow> exn option \<times> 'w world" where
  "check_sub E call s =
     (case is_subscribed E (cq_from call) s of
        (Inl e, s1) \<Rightarrow> (Some e, s1)
      | (Inr ok, s1) \<Rightarrow>
          if ok then
            (case message_edit_text E call SubscriptionConfirmed s1 of
               (Some e, s2) \<Rightarrow> (Some e, s2)
             | (None, s2) \<Rightarrow>
                 (case is_bonus_sent (cq_from call) s2 of
                    (sent, s3) \<Rightarrow>
                      if \<not> sent then
                        (case send_bonus_file E (cq_from call) s3 of
                           (Some e, s4) \<Rightarrow> (Some e, s4)
                         | (None, s4) \<Rightarrow> (None, mark_bonus_sent (cq_from call) s4))
                      else (None, s3)))
          else call_answer E call SubscriptionNotFound s1)"

definition admin_panel :: "'w env \<Rightarrow> message \<Rightarrow> 'w world \<Rightarrow> exn option \<times> 'w world" where
  "admin_panel E m s =
     (if \<not> is_admin E (msg_from m) then (None, s)
      else message_answer E m AdminPanel s)"

definition stats :: "'w env \<Rightarrow> message \<Rightarrow> 'w world \<Rightarrow> exn option \<times> 'w world" where
  "stats E m s =
     (if \<not> is_admin E (msg_from m) then (None, s)
      else (case get_all_user_ids s of
              (ids, s') \<Rightarrow> message_answer E m (UserCount (length ids)) s'))"

definition broadcast_start :: "'w env \<Rightarrow> message \<Rightarrow> 'w world \<Rightarrow> exn option \<times> 'w world" where
  "broadcast_start E m s =
     (if \<not> is_admin E (msg_from m) then (None, s)
      else message_answer E m SendBroadcastText (state_set_state (key_of m) waiting_text s))"

definition broadcast_get_text :: "'w env \<Rightarrow> message \<Rightarrow> 'w world \<Rightarrow> exn option \<times> 'w world" where
  "broadcast_get_text E m s =
     message_answer E m ConfirmPrompt
       (state_set_state (key_of m) waiting_confirm
          (state_update_data (key_of m) (msg_text m) s))"

text \<open>
  The loop of \<^verbatim>\<open>broadcast_confirm\<close>: \<^verbatim>\<open>for uid in user_ids: try: send; sleep  except: pass\<close>.
  The bare \<^verbatim>\<open>except\<close> catches whatever the body raises.
\<close>

definition bot_send_message ::
  "'w env \<Rightarrow> int \<Rightarrow> ustr option \<Rightarrow> 'w world \<Rightarrow> exn option \<times> 'w world" where
  "bot_send_message E uid text s =
     (case send_message E (tg s) uid text of
        (r, w) \<Rightarrow> (r, emit (SendMessage uid text r) (s\<lparr>tg := w\<rparr>)))"

fun fan_out :: "'w env \<Rightarrow> ustr option \<Rightarrow> int list \<Rightarrow> 'w world \<Rightarrow> 'w world" where
  "fan_out E text [] s = s"
| "fan_out E text (uid # uids) s =
     (case bot_send_message E uid text s of
        (None, s') \<Rightarrow> fan_out E text uids (suspend E (emit Sleep s'))
      | (Some e, s') \<Rightarrow> fan_out E text uids (suspend E s'))"

text \<open>
  The two notices of \<^verbatim>\<open>broadcast_confirm\<close> stand outside the \<^verbatim>\<open>try\<close>: an exception of the
  first ends the handler before the loop, an exception of the second leaves the handler
  after it.
\<close>

definition broadcast_confirm :: "'w env \<Rightarrow> message \<Rightarrow> 'w world \<Rightarrow> exn option \<times> 'w world" where
  "broadcast_confirm E m s =
     (case msg_text m of
        None \<Rightarrow> (Some AttributeError, s)
      | Some t \<Rightarrow>
          if upper E t \<noteq> py_str ''YES'' then message_answer E m NotConfirmed s
          else
            (case state_get_data (key_of m) s of
               (data, s1) \<Rightarrow>
                 (case data ''text'' of
                    None \<Rightarrow> (Some KeyError, s1)
                  | Some text \<Rightarrow>
                      (case get_all_user_ids (suspend E (state_clear (key_of m) s1)) of
                         (user_ids, s2) \<Rightarrow>
                           (case message_answer E m BroadcastStarted s2 of
                              (Some e, s3) \<Rightarrow> (Some e, s3)
                            | (None, s3) \<Rightarrow>
                                message_answer E m BroadcastFinished
                                  (fan_out E text user_ids (suspend E s3)))))))"

definition cancel :: "'w env \<Rightarrow> message \<Rightarrow> 'w world \<Rightarrow> exn option \<times> 'w world" where
  "cancel E m s = message_answer E m Cancelled (state_clear (key_of m) s)"

subsection \<open>The dispatcher\<close>

text \<open>
  aiogram offers a message to the handlers in the order the module registers them and
  calls the first one whose filter accepts it: the five command handlers, then the
  handlers of the two states, then \<^verbatim>\<open>cancel\<close>. A message none accepts is dropped.
\<close>

definition dp_message :: "'w env \<Rightarrow> message \<Rightarrow> 'w world \<Rightarrow> exn option \<times> 'w world" where
  "dp_message E m s =
     (let cmd = command_of E (command_source m); st = fsm_state (fsm s (key_of m)) in
      if cmd = Some (py_str ''id'') then my_id E m s
      else if cmd = Some (py_str ''start'') then start E m s
      else if cmd = Some (py_str ''admin'') then admin_panel E m s
      else if cmd = Some (py_str ''stats'') then stats E m s
      else if cmd = Some (py_str ''broadcast'') then broadcast_start E m s
      else if st = Some waiting_text then broadcast_get_text E m s
      else if st = Some waiting_confirm then broadcast_confirm E m s
      else if cmd = Some (py_str ''cancel'') then cancel E m s
      else (None, s))"

section \<open>Reading a trace\<close>

text \<open>What a handler appended to the trace of the world it started from.\<close>

definition appended :: "'w world \<Rightarrow> 'w world \<Rightarrow> event list" where
  "appended s s' = drop (length (trace s)) (trace s')"

text \<open>The recipients and the texts of the \<^verbatim>\<open>bot.send_message\<close> calls of a trace, in order.\<close>

fun send_targets :: "event list \<Rightarrow> int list" where
  "send_targets [] = []"
| "send_targets (SendMessage uid text r # evs) = uid # send_targets evs"
| "send_targets (e # evs) = send_targets evs"

fun send_texts :: "event list \<Rightarrow> ustr option list" where
  "send_texts [] = []"
| "send_texts (SendMessage uid text r # evs) = text # send_texts evs"
| "send_texts (e # evs) = send_texts evs"

fun loop_event :: "event \<Rightarrow> bool" where
  "loop_event (SendMessage uid text r) = True"
| "loop_event Sleep = True"
| "loop_event e = False"

text \<open>The \<^verbatim>\<open>message.answer\<close> calls of a trace: the chat and the notice, whatever the outcome.\<close>

fun notices :: "event list \<Rightarrow> (int \<times> notice) list" where
  "notices [] = []"
| "notices (Answer c n r # evs) = (c, n) # notices evs"
| "notices (e # evs) = notices evs"

text \<open>The \<^verbatim>\<open>bot.send_document\<close> calls for a user, whatever their outcome.\<close>

fun document_calls :: "int \<Rightarrow> event list \<Rightarrow> event list" where
  "document_calls uid [] = []"
| "document_calls uid (SendDocument u r # evs) =
     (if u = uid then SendDocument u r # document_calls uid evs else document_calls uid evs)"
| "document_calls uid (e # evs) = document_calls uid evs"

text \<open>What the user sees: a reply, an edited message, an alert, when the call went through.\<close>

fun user_visible :: "event \<Rightarrow> bool" where
  "user_visible (Answer c n r) = (r = None)"
| "user_visible (EditText c n r) = (r = None)"
| "user_visible (CallAnswer c n r) = (r = None)"
| "user_visible e = False"

text \<open>What follows, in a trace, the first \<^verbatim>\<open>bot.send_document\<close> call for a user that failed.\<close>

fun after_failed_document :: "int \<Rightarrow> event list \<Rightarrow> event list" where
  "after_failed_document uid [] = []"
| "after_failed_document uid (SendDocument u r # evs) =
     (if u = uid \<and> r \<noteq> None then evs else after_failed_document uid evs)"
| "after_failed_document uid (e # evs) = after_failed_document uid evs"

text \<open>
  The same button pressed \<open>n\<close> times, one press handled after the other. An exception
  that leaves a handler is logged by the dispatcher, which goes on with the next update.
\<close>

fun check_sub_repeat :: "'w env \<Rightarrow> callback_query \<Rightarrow> nat \<Rightarrow> 'w world \<Rightarrow> 'w world" where
  "check_sub_repeat E call 0 s = s"
| "check_sub_repeat E call (Suc n) s = check_sub_repeat E call n (snd (check_sub E call s))"

section \<open>A concrete deployment\<close>

text \<open>
  One administrator (user 1) and three registered users. The Bot API of this deployment
  counts the calls of \<^verbatim>\<open>get_chat_member\<close>, \<^verbatim>\<open>send_document\<close> and \<^verbatim>\<open>send_message\<close>. The
  membership query fails with a network error for user 5 and with a bad request for
  user 6; user 8 has left the channel. The bonus file cannot be delivered to user 4, and
  user 3 has blocked the bot. The message under the button of user 10 cannot be edited.
  Right after the second counted call user 9 registers. Of the upper-case table the
  deployment has the entry of Python for the long s, U+017F, which is \<open>S\<close>; no text below
  holds another code point beyond ASCII.
\<close>

definition row0 :: user_row where
  "row0 = \<lparr>username = None, first_name = Some (py_str ''u''), bonus_sent = 0\<rparr>"

definition demo_env :: "nat env" where
  "demo_env =
     \<lparr>ADMINS = {1},
      names_this_bot = (\<lambda>name. name = py_str ''bonus_bot''),
      unicode_upper = (\<lambda>c. if c = 383 then [83] else [c]),
      get_chat_member = (\<lambda>w uid.
         (if uid = 5 then Inl TelegramNetworkError
          else if uid = 6 then Inl TelegramBadRequest
          else if uid = 8 then Inr ''left'' else Inr ''member'', Suc w)),
      send_document = (\<lambda>w uid. (if uid = 4 then Some TelegramForbiddenError else None, Suc w)),
      send_message = (\<lambda>w uid text. (if uid = 3 then Some TelegramForbiddenError else None, Suc w)),
      send_answer = (\<lambda>w c n. (None, w)),
      edit_message_text = (\<lambda>w c n. (if c = 10 then Some TelegramBadRequest else None, w)),
      answer_callback_query = (\<lambda>w c n. (None, w)),
      concurrent = (\<lambda>w tbl. if w = 2 then sql_insert_or_ignore 9 None None tbl else tbl)\<rparr>"

text \<open>The same deployment at a time when no reply into a chat goes through.\<close>

definition demo_env_offline :: "nat env" where
  "demo_env_offline = demo_env\<lparr>send_answer := (\<lambda>w c n. (Some TelegramNetworkError, w))\<rparr>"

definition demo_world :: "nat world" where
  "demo_world =
     \<lparr>users = [(2, row0), (3, row0), (4, row0)], fsm = (\<lambda>k. idle_ctx), tg = 0, trace = []\<rparr>"

definition op_msg :: "ustr option \<Rightarrow> message" where
  "op_msg t =
     \<lparr>msg_chat = 1, msg_from = 1, msg_username = None, msg_first_name = Some (py_str ''op''),
      msg_text = t, msg_caption = None\<rparr>"

definition user_msg :: "int \<Rightarrow> ustr option \<Rightarrow> message" where
  "user_msg uid t =
     \<lparr>msg_chat = uid, msg_from = uid, msg_username = None, msg_first_name = Some (py_str ''u''),
      msg_text = t, msg_caption = None\<rparr>"

definition button :: "int \<Rightarrow> callback_query" where
  "button uid = \<lparr>cq_from = uid, cq_chat = uid\<rparr>"

text \<open>The administrator has sent \<^verbatim>\<open>/broadcast\<close>, and then the text \<^verbatim>\<open>hello\<close>.\<close>

definition demo_awaiting_text :: "nat world" where
  "demo_awaiting_text =
     snd (dp_message demo_env (op_msg (Some (py_str ''/broadcast''))) demo_world)"

definition demo_awaiting_confirm :: "nat world" where
  "demo_awaiting_confirm =
     snd (dp_message demo_env (op_msg (Some (py_str ''hello''))) demo_awaiting_text)"

text \<open>The word \<^verbatim>\<open>yes\<close> written with a long s.\<close>

definition yes_long_s :: ustr where
  "yes_long_s = [121, 101, 383]"

section \<open>Basic facts\<close>

lemmas demo_defs = demo_env_def demo_env_offline_def demo_world_def op_msg_def user_msg_def
  button_def row0_def demo_awaiting_text_def demo_awaiting_confirm_def yes_long_s_def

lemmas handler_defs = dp_message_def command_source_def command_of_def is_space_def key_of_def
  my_id_def start_def admin_panel_def stats_def cancel_def check_sub_def
  broadcast_start_def broadcast_get_text_def broadcast_confirm_def is_admin_def
  message_answer_def message_edit_text_def call_answer_def emit_def
  state_set_state_def state_update_data_def state_get_data_def
  state_clear_def idle_ctx_def upper_def upper_cp_def py_str_def
  get_all_user_ids_def sql_select_user_ids_def suspend_def bot_send_message_def
  sql_insert_or_ignore_def is_subscribed_def is_bonus_sent_def mark_bonus_sent_def
  send_bonus_file_def save_user_def sql_select_bonus_sent_def sql_update_bonus_sent_def
  appended_def

lemma emit_simps:
  "trace (emit e s) = trace s @ [e]" "users (emit e s) = users s"
  "fsm (emit e s) = fsm s" "tg (emit e s) = tg s"
  by (simp_all add: emit_def)

lemma suspend_simps:
  "trace (suspend E s) = trace s" "fsm (suspend E s) = fsm s" "tg (suspend E s) = tg s"
  "users (suspend E s) = concurrent E (tg s) (users s)"
  by (simp_all add: suspend_def)

subsection \<open>Traces\<close>

lemma send_targets_append: "send_targets (xs @ ys) = send_targets xs @ send_targets ys"
  by (induction xs rule: send_targets.induct) simp_all

lemma send_texts_append: "send_texts (xs @ ys) = send_texts xs @ send_texts ys"
  by (induction xs rule: send_texts.induct) simp_all

lemma notices_append: "notices (xs @ ys) = notices xs @ notices ys"
  by (induction xs rule: notices.induct) simp_all

lemma notices_loop_events: "list_all loop_event evs \<Longrightarrow> notices evs = []"
  by (induction evs rule: notices.induct) simp_all

lemma document_calls_append:
  "document_calls uid (xs @ ys) = document_calls uid xs @ document_calls uid ys"
  by (induction uid xs rule: document_calls.induct) simp_all

lemma count_list_document_calls:
  "count_list (document_calls uid tr) (SendDocument uid r) = count_list tr (SendDocument uid r)"
  by (induction uid tr rule: document_calls.induct) auto

lemma count_list_loop_events:
  "list_all loop_event evs \<Longrightarrow> \<not> loop_event e \<Longrightarrow> count_list evs e = 0"
  by (induction evs) auto

subsection \<open>The statements on the users table\<close>

lemma map_of_sql_update_bonus_sent:
  "map_of (sql_update_bonus_sent uid tbl) k =
     (if k = uid then map_option (\<lambda>r. r\<lparr>bonus_sent := 1\<rparr>) (map_of tbl k) else map_of tbl k)"
  by (induction tbl) (auto simp: sql_update_bonus_sent_def)



lemma is_bonus_sent_after_mark:
  assumes "uid \<in> fst ` set (users s)"
  shows "fst (is_bonus_sent uid (mark_bonus_sent uid s))"
proof -
  from assms obtain r where "map_of (users s) uid = Some r"
    by (metis domD dom_map_of_conv_image_fst)
  then show ?thesis
    by (simp add: is_bonus_sent_def mark_bonus_sent_def emit_def sql_select_bonus_sent_def
        map_of_sql_update_bonus_sent)
qed

text \<open>A new row goes to its place among the keys: the table stays in the order of the keys.\<close>

lemma sql_insert_or_ignore_sorted:
  "sorted (map fst tbl) \<Longrightarrow> sorted (map fst (sql_insert_or_ignore uid un fn tbl))"
  by (simp add: sql_insert_or_ignore_def sorted_insort_key)

lemma sql_insert_or_ignore_example:
  "sql_select_user_ids (sql_insert_or_ignore 1 None None [(2, row0), (3, row0), (4, row0)])
     = [1, 2, 3, 4]"
  by (simp add: sql_insert_or_ignore_def sql_select_user_ids_def)

lemma map_of_insort_key_fresh:
  "uid \<notin> fst ` set tbl \<Longrightarrow> map_of (insort_key fst (uid, r) tbl) uid = Some r"
  by (induction tbl) auto

subsection \<open>Upper case\<close>

lemma upper_ascii:
  "list_all (\<lambda>c. c < 128) t \<Longrightarrow>
     upper E t = map (\<lambda>c. if 97 \<le> c \<and> c \<le> 122 then c - 32 else c) t"
  by (induction t) (simp_all add: upper_def upper_cp_def)

lemma map_eq_three:
  "map f t = [x, y, z] \<longleftrightarrow> (\<exists>a b c. t = [a, b, c] \<and> f a = x \<and> f b = y \<and> f c = z)"
  by (auto simp: map_eq_Cons_conv)

text \<open>
  The texts in ASCII that \<^verbatim>\<open>upper\<close> maps to \<^verbatim>\<open>YES\<close> are the eight spellings of the word.
\<close>

lemma upper_YES_iff:
  assumes "list_all (\<lambda>c. c < 128) t"
  shows "upper E t = py_str ''YES'' \<longleftrightarrow>
     t \<in> py_str ` {''YES'', ''YEs'', ''YeS'', ''Yes'', ''yES'', ''yEs'', ''yeS'', ''yes''}"
proof -
  let ?up = "\<lambda>c::nat. if 97 \<le> c \<and> c \<le> 122 then c - 32 else c"
  have y: "?up c = 89 \<longleftrightarrow> c = 89 \<or> c = 121" for c by auto
  have e: "?up c = 69 \<longleftrightarrow> c = 69 \<or> c = 101" for c by auto
  have s: "?up c = 83 \<longleftrightarrow> c = 83 \<or> c = 115" for c by auto
  have "upper E t = py_str ''YES'' \<longleftrightarrow> map ?up t = [89, 69, 83]"
    by (simp add: upper_ascii [OF assms] py_str_def)
  also have "\<dots> \<longleftrightarrow> (\<exists>a b c. t = [a, b, c] \<and> ?up a = 89 \<and> ?up b = 69 \<and> ?up c = 83)"
    by (rule map_eq_three)
  also have "\<dots> \<longleftrightarrow> (\<exists>a b c. t = [a, b, c] \<and> (a = 89 \<or> a = 121) \<and> (b = 69 \<or> b = 101)
        \<and> (c = 83 \<or> c = 115))"
    unfolding y e s ..
  also have "\<dots> \<longleftrightarrow>
     t \<in> py_str ` {''YES'', ''YEs'', ''YeS'', ''Yes'', ''yES'', ''yEs'', ''yeS'', ''yes''}"
    by (auto simp: py_str_def)
  finally show ?thesis .
qed

text \<open>Beyond ASCII the table decides: with the long s mapped to \<open>S\<close>, as Python has it.\<close>

lemma upper_long_s:
  "unicode_upper E 383 = [83] \<Longrightarrow> upper E [121, 101, 383] = py_str ''YES''"
  by (simp add: upper_def upper_cp_def py_str_def)

subsection \<open>Commands\<close>

lemma command_of_examples:
  "command_of demo_env (Some (py_str ''/cancel'')) = Some (py_str ''cancel'')"
  "command_of demo_env (Some (py_str ''/cancel@bonus_bot now'')) = Some (py_str ''cancel'')"
  "command_of demo_env (Some (py_str ''/cancel@other_bot'')) = None"
  "command_of demo_env (Some (py_str ''cancel'')) = None"
  "command_of demo_env (Some (py_str ''/id'' @ [160] @ py_str ''x'')) = Some (py_str ''id'')"
  "command_of demo_env None = None"
  by (simp_all add: command_of_def is_space_def demo_env_def py_str_def)

text \<open>A photo with a caption is looked at through its caption.\<close>

lemma command_source_caption:
  "msg_text m = None \<Longrightarrow> command_source m = msg_caption m"
  "msg_text m = Some (c # cs) \<Longrightarrow> command_source m = Some (c # cs)"
  by (simp_all add: command_source_def)

subsection \<open>Registration\<close>

text \<open>
  \<^verbatim>\<open>save_user\<close> is the only place where the module inserts a row. It leaves an existing row
  as it is; a new row starts with the flag not set.
\<close>

lemma save_user_row:
  "uid \<in> fst ` set (users (save_user uid un fn s))"
  "uid \<in> fst ` set (users s) \<Longrightarrow> users (save_user uid un fn s) = users s"
  "uid \<notin> fst ` set (users s) \<Longrightarrow> \<not> fst (is_bonus_sent uid (save_user uid un fn s))"
proof -
  show "uid \<in> fst ` set (users (save_user uid un fn s))"
    by (simp add: save_user_def sql_insert_or_ignore_def emit_def set_insort_key)
  show "uid \<in> fst ` set (users s) \<Longrightarrow> users (save_user uid un fn s) = users s"
    by (simp add: save_user_def sql_insert_or_ignore_def emit_def)
  assume n: "uid \<notin> fst ` set (users s)"
  then show "\<not> fst (is_bonus_sent uid (save_user uid un fn s))"
    by (simp add: save_user_def sql_insert_or_ignore_def emit_def is_bonus_sent_def
        sql_select_bonus_sent_def map_of_insort_key_fresh)
qed

section \<open>The membership check\<close>

lemma is_subscribed_shape:
  "\<exists>r. trace (snd (is_subscribed E uid s)) = trace s @ [GetChatMember uid r]
     \<and> users (snd (is_subscribed E uid s)) = users s
     \<and> fsm (snd (is_subscribed E uid s)) = fsm s"
  by (cases "get_chat_member E (tg s) uid")
     (auto simp: is_subscribed_def emit_def Let_def split: sum.splits)


text \<open>A status other than the three named ones is a refusal.\<close>

lemma is_subscribed_other_status:
  assumes "fst (get_chat_member E (tg s) uid) = Inr status"
    and "status \<notin> {''creator'', ''administrator'', ''member''}"
  shows "fst (is_subscribed E uid s) = Inr False"
proof -
  obtain w where g: "get_chat_member E (tg s) uid = (Inr status, w)"
    using assms(1) by (cases "get_chat_member E (tg s) uid") simp
  show ?thesis
    using assms(2) by (simp add: is_subscribed_def g)
qed

text \<open>
  Claim C2, as the module has it. When the membership query raises
  \<^verbatim>\<open>TelegramBadRequest\<close>, \<^verbatim>\<open>is_subscribed\<close> returns \<^verbatim>\<open>False\<close>. Any other exception is not
  caught: it leaves \<^verbatim>\<open>is_subscribed\<close> and reaches the caller. On no error of the query
  does \<^verbatim>\<open>is_subscribed\<close> return \<^verbatim>\<open>True\<close>.
\<close>

theorem is_subscribed_error_outcomes:
  assumes "fst (get_chat_member E (tg s) uid) = Inl e"
  shows "fst (is_subscribed E uid s) = (if e = TelegramBadRequest then Inr False else Inl e)
       \<and> fst (is_subscribed E uid s) \<noteq> Inr True"
proof -
  obtain w where g: "get_chat_member E (tg s) uid = (Inl e, w)"
    using assms by (cases "get_chat_member E (tg s) uid") simp
  show ?thesis
    by (simp add: is_subscribed_def g)
qed

text \<open>Users 6 (bad request) and 5 (network error) of the concrete deployment.\<close>

theorem is_subscribed_error_outcomes_witness:
  "fst (get_chat_member demo_env (tg demo_world) 6) = Inl TelegramBadRequest
   \<and> fst (is_subscribed demo_env 6 demo_world) = Inr False
   \<and> fst (get_chat_member demo_env (tg demo_world) 5) = Inl TelegramNetworkError
   \<and> fst (is_subscribed demo_env 5 demo_world) = Inl TelegramNetworkError"
proof -
  have h6: "fst (get_chat_member demo_env (tg demo_world) 6) = Inl TelegramBadRequest"
    by (simp add: demo_env_def)
  have h5: "fst (get_chat_member demo_env (tg demo_world) 5) = Inl TelegramNetworkError"
    by (simp add: demo_env_def)
  show ?thesis
    using h5 h6 is_subscribed_error_outcomes [OF h6] is_subscribed_error_outcomes [OF h5]
    by simp
qed

text \<open>
  Claim C2 as it is worded asks for \<^verbatim>\<open>False\<close> on every error of the membership query.
  For user 5 the query fails with a network error, and \<^verbatim>\<open>is_subscribed\<close> does not return
  \<^verbatim>\<open>False\<close>: the error leaves it.
\<close>

theorem is_subscribed_network_error_counterexample:
  "fst (get_chat_member demo_env (tg demo_world) 5) = Inl TelegramNetworkError
   \<and> fst (is_subscribed demo_env 5 demo_world) \<noteq> Inr False"
  by (simp add: demo_env_def is_subscribed_def)

section \<open>The bonus file\<close>

lemma message_edit_text_shape:
  "\<exists>r s'. message_edit_text E call n s = (r, s')
      \<and> trace s' = trace s @ [EditText (cq_chat call) n r] \<and> users s' = users s"
  by (simp add: message_edit_text_def emit_def split: prod.splits)

lemma call_answer_shape:
  "\<exists>r s'. call_answer E call n s = (r, s')
      \<and> trace s' = trace s @ [CallAnswer (cq_from call) n r] \<and> users s' = users s"
  by (simp add: call_answer_def emit_def split: prod.splits)

text \<open>
  \<^verbatim>\<open>check_sub\<close> once the membership query has granted: when the edit of the message
  raises, and when it goes through.
\<close>

lemma check_sub_edit_raises:
  assumes "is_subscribed E (cq_from call) s = (Inr True, s1)"
    and "edit_message_text E (tg s1) (cq_chat call) SubscriptionConfirmed = (Some e, w1)"
  shows "check_sub E call s =
     (Some e, emit (EditText (cq_chat call) SubscriptionConfirmed (Some e)) (s1\<lparr>tg := w1\<rparr>))"
  using assms by (simp add: check_sub_def message_edit_text_def)

lemma check_sub_granted:
  assumes "is_subscribed E (cq_from call) s = (Inr True, s1)"
    and "edit_message_text E (tg s1) (cq_chat call) SubscriptionConfirmed = (None, w1)"
  shows "check_sub E call s =
     (let s2 = emit (SelectBonusSent (cq_from call))
                 (emit (EditText (cq_chat call) SubscriptionConfirmed None) (s1\<lparr>tg := w1\<rparr>)) in
      if fst (is_bonus_sent (cq_from call) s1) then (None, s2)
      else (case send_document E w1 (cq_from call) of
              (None, w) \<Rightarrow>
                (None, mark_bonus_sent (cq_from call)
                         (emit (SendDocument (cq_from call) None) (s2\<lparr>tg := w\<rparr>)))
            | (Some e, w) \<Rightarrow>
                (Some e, emit (SendDocument (cq_from call) (Some e)) (s2\<lparr>tg := w\<rparr>))))"
  using assms
  by (simp add: check_sub_def message_edit_text_def is_bonus_sent_def send_bonus_file_def
      emit_def Let_def split: prod.splits option.splits)



text \<open>
  One press of the button in general. With the flag set nothing is sent and the table
  stays as it is. With a row whose flag is not set, either the file is delivered and the
  flag is set, or nothing is delivered and the table stays as it is.
\<close>

lemma check_sub_step:
  assumes "cq_from call = uid"
  shows "fst (is_bonus_sent uid s) \<Longrightarrow>
           document_calls uid (trace (snd (check_sub E call s))) = document_calls uid (trace s)
           \<and> users (snd (check_sub E call s)) = users s"
    and "uid \<in> fst ` set (users s) \<Longrightarrow> \<not> fst (is_bonus_sent uid s) \<Longrightarrow>
           (count_list (trace (snd (check_sub E call s))) (SendDocument uid None)
              = count_list (trace s) (SendDocument uid None) + 1
            \<and> fst (is_bonus_sent uid (snd (check_sub E call s))))
         \<or> (count_list (trace (snd (check_sub E call s))) (SendDocument uid None)
              = count_list (trace s) (SendDocument uid None)
            \<and> users (snd (check_sub E call s)) = users s)"
proof -
  obtain res s1 where is1: "is_subscribed E uid s = (res, s1)"
    by (cases "is_subscribed E uid s")
  obtain r where t1: "trace s1 = trace s @ [GetChatMember uid r]" and u1: "users s1 = users s"
    using is_subscribed_shape [of E uid s] is1 by auto
  have b1: "fst (is_bonus_sent uid s1) = fst (is_bonus_sent uid s)"
    using u1 by (simp add: is_bonus_sent_def)
  obtain er w1 where ed: "edit_message_text E (tg s1) (cq_chat call) SubscriptionConfirmed = (er, w1)"
    by (cases "edit_message_text E (tg s1) (cq_chat call) SubscriptionConfirmed")
  obtain cr s1' where ca: "call_answer E call SubscriptionNotFound s1 = (cr, s1')"
    and ct: "trace s1' = trace s1 @ [CallAnswer (cq_from call) SubscriptionNotFound cr]"
    and cu: "users s1' = users s1"
    using call_answer_shape by blast
  {
    assume f: "fst (is_bonus_sent uid s)"
    show "document_calls uid (trace (snd (check_sub E call s))) = document_calls uid (trace s)
           \<and> users (snd (check_sub E call s)) = users s"
    proof (cases res)
      case (Inl e)
      then show ?thesis
        using is1 assms t1 u1 by (simp add: check_sub_def document_calls_append)
    next
      case (Inr ok)
      show ?thesis
      proof (cases ok)
        case False
        with Inr show ?thesis
          using is1 assms t1 u1 ca ct cu by (simp add: check_sub_def document_calls_append)
      next
        case True
        with Inr is1 assms have g: "is_subscribed E (cq_from call) s = (Inr True, s1)" by simp
        show ?thesis
        proof (cases er)
          case (Some e)
          with check_sub_edit_raises [OF g] ed show ?thesis
            using assms t1 u1 by (simp add: emit_def document_calls_append)
        next
          case None
          with check_sub_granted [OF g] ed show ?thesis
            using f b1 assms t1 u1 by (simp add: Let_def emit_def document_calls_append)
        qed
      qed
    qed
  }
  {
    assume reg: "uid \<in> fst ` set (users s)" and nf: "\<not> fst (is_bonus_sent uid s)"
    let ?c = "count_list (trace s) (SendDocument uid None)"
    show "(count_list (trace (snd (check_sub E call s))) (SendDocument uid None) = ?c + 1
            \<and> fst (is_bonus_sent uid (snd (check_sub E call s))))
         \<or> (count_list (trace (snd (check_sub E call s))) (SendDocument uid None) = ?c
            \<and> users (snd (check_sub E call s)) = users s)"
    proof (cases res)
      case (Inl e)
      then show ?thesis
        using is1 assms t1 u1 by (simp add: check_sub_def)
    next
      case (Inr ok)
      show ?thesis
      proof (cases ok)
        case False
        with Inr show ?thesis
          using is1 assms t1 u1 ca ct cu by (simp add: check_sub_def)
      next
        case True
        with Inr is1 assms have g: "is_subscribed E (cq_from call) s = (Inr True, s1)" by simp
        show ?thesis
        proof (cases er)
          case (Some e)
          with check_sub_edit_raises [OF g] ed show ?thesis
            using assms t1 u1 by (simp add: emit_def)
        next
          case None
          note g2 = check_sub_granted [OF g ed [unfolded None]]
          obtain d w where d: "send_document E w1 uid = (d, w)"
            by (cases "send_document E w1 uid")
          show ?thesis
          proof (cases d)
            case (Some e)
            then show ?thesis
              using g2 nf b1 assms t1 u1 d by (simp add: Let_def emit_def)
          next
            case None
            let ?s3 = "emit (SendDocument uid None)
                        (emit (SelectBonusSent uid)
                           (emit (EditText (cq_chat call) SubscriptionConfirmed None)
                              (s1\<lparr>tg := w1\<rparr>))\<lparr>tg := w\<rparr>)"
            have cs: "check_sub E call s = (None, mark_bonus_sent uid ?s3)"
              using g2 nf b1 assms d None by (simp add: Let_def)
            have "uid \<in> fst ` set (users ?s3)"
              using reg u1 by (simp add: emit_def)
            then have "fst (is_bonus_sent uid (mark_bonus_sent uid ?s3))"
              by (rule is_bonus_sent_after_mark)
            moreover have "count_list (trace (mark_bonus_sent uid ?s3)) (SendDocument uid None)
                = ?c + 1"
              using t1 by (simp add: mark_bonus_sent_def emit_def)
            ultimately show ?thesis
              by (simp add: cs)
          qed
        qed
      qed
    qed
  }
qed

text \<open>
  Once the flag of a user is set, no number of presses makes the module call
  \<^verbatim>\<open>send_document\<close> for that user again.
\<close>

lemma bonus_sent_no_more_delivery:
  assumes "cq_from call = uid" and "fst (is_bonus_sent uid s)"
  shows "document_calls uid (trace (check_sub_repeat E call n s)) = document_calls uid (trace s)
       \<and> users (check_sub_repeat E call n s) = users s"
  using assms(2)
proof (induction n arbitrary: s)
  case 0
  show ?case by simp
next
  case (Suc n)
  let ?s' = "snd (check_sub E call s)"
  have st: "document_calls uid (trace ?s') = document_calls uid (trace s) \<and> users ?s' = users s"
    using check_sub_step(1) [OF assms(1) Suc.prems] .
  then have "fst (is_bonus_sent uid ?s')"
    using Suc.prems by (simp add: is_bonus_sent_def)
  from Suc.IH [OF this] st show ?case
    by simp
qed

text \<open>
  A user who has a row in the table receives the file at most once, however often the
  button is pressed and whatever the Bot API answers.
\<close>

lemma registered_user_at_most_one_delivery:
  assumes "cq_from call = uid" and "uid \<in> fst ` set (users s)"
  shows "count_list (trace (check_sub_repeat E call n s)) (SendDocument uid None)
           \<le> count_list (trace s) (SendDocument uid None) + 1"
  using assms(2)
proof (induction n arbitrary: s)
  case 0
  show ?case by simp
next
  case (Suc n)
  let ?s' = "snd (check_sub E call s)"
  let ?D = "SendDocument uid None"
  show ?case
  proof (cases "fst (is_bonus_sent uid s)")
    case True
    have "document_calls uid (trace (check_sub_repeat E call (Suc n) s))
            = document_calls uid (trace s)"
      using bonus_sent_no_more_delivery [OF assms(1) True] by blast
    then have "count_list (trace (check_sub_repeat E call (Suc n) s)) ?D = count_list (trace s) ?D"
      by (metis count_list_document_calls)
    then show ?thesis by simp
  next
    case False
    from check_sub_step(2) [OF assms(1) Suc.prems False, of E]
    consider (won) "count_list (trace ?s') ?D = count_list (trace s) ?D + 1"
        "fst (is_bonus_sent uid ?s')"
      | (same) "count_list (trace ?s') ?D = count_list (trace s) ?D" "users ?s' = users s"
      by blast
    then show ?thesis
    proof cases
      case won
      have "document_calls uid (trace (check_sub_repeat E call n ?s'))
              = document_calls uid (trace ?s')"
        using bonus_sent_no_more_delivery [OF assms(1) won(2)] by blast
      then have "count_list (trace (check_sub_repeat E call n ?s')) ?D = count_list (trace ?s') ?D"
        by (metis count_list_document_calls)
      with won(1) show ?thesis by simp
    next
      case same
      then have "uid \<in> fst ` set (users ?s')"
        using Suc.prems by simp
      from Suc.IH [OF this] same(1) show ?thesis by simp
    qed
  qed
qed

text \<open>
  Claim C1 asks that the bonus file reaches a user at most once, however often the
  button is pressed. User 7 is a member of the channel and has no row in the users
  table; the button is pressed twice, and \<^verbatim>\<open>send_document\<close> delivers the file to user 7
  twice.
\<close>

theorem unregistered_user_served_twice:
  "7 \<notin> fst ` set (users demo_world)
   \<and> document_calls 7 (trace (check_sub_repeat demo_env (button 7) 2 demo_world))
       = [SendDocument 7 None, SendDocument 7 None]"
  by (simp add: demo_defs handler_defs numeral_2_eq_2)

text \<open>
  Claim C8, as the module has it. The user is a member, the message is edited to say
  that the subscription is confirmed, the flag is not set, and \<^verbatim>\<open>send_document\<close> raises.
  Then the exception leaves \<^verbatim>\<open>check_sub\<close>, the users table is what it was, so the flag is
  still not set, and after the membership query the handler did three things: the edit,
  the reading of the flag, and the call that failed. Nothing is sent after the failure.
\<close>

theorem check_sub_failed_delivery:
  assumes "cq_from call = uid"
    and "is_subscribed E uid s = (Inr True, s1)"
    and "edit_message_text E (tg s1) (cq_chat call) SubscriptionConfirmed = (None, w1)"
    and "\<not> fst (is_bonus_sent uid s)"
    and "fst (send_document E w1 uid) = Some e"
  shows "fst (check_sub E call s) = Some e
       \<and> users (snd (check_sub E call s)) = users s
       \<and> \<not> fst (is_bonus_sent uid (snd (check_sub E call s)))
       \<and> appended s1 (snd (check_sub E call s))
           = [EditText (cq_chat call) SubscriptionConfirmed None, SelectBonusSent uid,
              SendDocument uid (Some e)]"
proof -
  obtain w where d: "send_document E w1 uid = (Some e, w)"
    using assms(5) by (cases "send_document E w1 uid") simp
  have u: "users s1 = users s"
    using is_subscribed_shape [of E uid s] assms(2) by simp
  have nb: "\<not> fst (is_bonus_sent uid s1)"
    using assms(4) u by (simp add: is_bonus_sent_def)
  have "check_sub E call s =
     (Some e, emit (SendDocument uid (Some e))
        (emit (SelectBonusSent uid)
           (emit (EditText (cq_chat call) SubscriptionConfirmed None) (s1\<lparr>tg := w1\<rparr>))
           \<lparr>tg := w\<rparr>))"
    using check_sub_granted [of E call s s1 w1] assms(1,2,3) nb d by (simp add: Let_def)
  then show ?thesis
    using u assms(4) by (simp add: emit_def appended_def is_bonus_sent_def)
qed

text \<open>User 4 of the concrete deployment, to whom the file cannot be delivered.\<close>

theorem check_sub_failed_delivery_witness:
  "cq_from (button 4) = 4
   \<and> is_subscribed demo_env 4 demo_world
        = (Inr True, demo_world\<lparr>tg := 1, trace := [GetChatMember 4 (Inr ''member'')]\<rparr>)
   \<and> edit_message_text demo_env 1 (cq_chat (button 4)) SubscriptionConfirmed = (None, 1)
   \<and> \<not> fst (is_bonus_sent 4 demo_world)
   \<and> fst (send_document demo_env 1 4) = Some TelegramForbiddenError
   \<and> fst (check_sub demo_env (button 4) demo_world) = Some TelegramForbiddenError
   \<and> users (snd (check_sub demo_env (button 4) demo_world)) = users demo_world
   \<and> \<not> fst (is_bonus_sent 4 (snd (check_sub demo_env (button 4) demo_world)))"
proof -
  let ?s1 = "demo_world\<lparr>tg := 1, trace := [GetChatMember 4 (Inr ''member'')]\<rparr>"
  have h1: "cq_from (button 4) = 4" by (simp add: button_def)
  have h2: "is_subscribed demo_env 4 demo_world = (Inr True, ?s1)"
    by (simp add: demo_defs is_subscribed_def emit_def)
  have h3: "edit_message_text demo_env (tg ?s1) (cq_chat (button 4)) SubscriptionConfirmed
              = (None, 1)"
    by (simp add: demo_defs)
  have h4: "\<not> fst (is_bonus_sent 4 demo_world)"
    by (simp add: demo_defs is_bonus_sent_def sql_select_bonus_sent_def)
  have h5: "fst (send_document demo_env 1 4) = Some TelegramForbiddenError"
    by (simp add: demo_defs)
  show ?thesis
    using h1 h2 h3 h4 h5 check_sub_failed_delivery [OF h1 h2 h3 h4 h5] by simp
qed

text \<open>
  Claim C8 as it is worded asks for a message to the user that tells of the failure.
  For user 4 the delivery fails, and the failed call is the last thing in the trace: of
  what follows it, nothing is visible to the user, because nothing follows it.
\<close>

theorem check_sub_failed_delivery_counterexample:
  "fst (send_document demo_env 1 4) = Some TelegramForbiddenError
   \<and> trace (snd (check_sub demo_env (button 4) demo_world))
       = [GetChatMember 4 (Inr ''member''), EditText 4 SubscriptionConfirmed None,
          SelectBonusSent 4, SendDocument 4 (Some TelegramForbiddenError)]
   \<and> filter user_visible
        (after_failed_document 4 (trace (snd (check_sub demo_env (button 4) demo_world)))) = []"
  by (simp add: demo_defs handler_defs)




section \<open>The broadcast\<close>

subsection \<open>Who reaches which handler\<close>

text \<open>
  The five commands registered ahead of the state handlers reach their own handlers in
  every phase. A message that is none of them goes to the handler of the state its
  sender is in; \<^verbatim>\<open>cancel\<close> is reached from the idle phase only.
\<close>

lemma dp_message_command:
  "command_of E (command_source m) = Some (py_str ''id'') \<Longrightarrow> dp_message E m s = my_id E m s"
  "command_of E (command_source m) = Some (py_str ''start'') \<Longrightarrow> dp_message E m s = start E m s"
  "command_of E (command_source m) = Some (py_str ''admin'') \<Longrightarrow>
     dp_message E m s = admin_panel E m s"
  "command_of E (command_source m) = Some (py_str ''stats'') \<Longrightarrow> dp_message E m s = stats E m s"
  "command_of E (command_source m) = Some (py_str ''broadcast'') \<Longrightarrow>
     dp_message E m s = broadcast_start E m s"
  by (simp_all add: dp_message_def py_str_def)

lemma dp_message_in_state:
  assumes "command_of E (command_source m) \<notin>
     {Some (py_str ''id''), Some (py_str ''start''), Some (py_str ''admin''),
      Some (py_str ''stats''), Some (py_str ''broadcast'')}"
  shows "fsm_state (fsm s (key_of m)) = Some waiting_text \<Longrightarrow>
           dp_message E m s = broadcast_get_text E m s"
    and "fsm_state (fsm s (key_of m)) = Some waiting_confirm \<Longrightarrow>
           dp_message E m s = broadcast_confirm E m s"
    and "fsm_state (fsm s (key_of m)) = None \<Longrightarrow>
           command_of E (command_source m) = Some (py_str ''cancel'') \<Longrightarrow>
           dp_message E m s = cancel E m s"
  using assms by (simp_all add: dp_message_def)

lemma message_answer_shape:
  "\<exists>r s'. message_answer E m n s = (r, s') \<and> r = fst (send_answer E (tg s) (msg_chat m) n)
      \<and> trace s' = trace s @ [Answer (msg_chat m) n r]
      \<and> fsm s' = fsm s \<and> users s' = users s"
  by (simp add: message_answer_def emit_def split: prod.splits)

lemma cancel_clears:
  "fsm (snd (cancel E m s)) (key_of m) = idle_ctx
   \<and> appended s (snd (cancel E m s))
       = [ClearState (key_of m), Answer (msg_chat m) Cancelled (fst (cancel E m s))]"
  by (simp add: cancel_def state_clear_def message_answer_def emit_def appended_def
      split: prod.splits)

subsection \<open>The loop\<close>

lemma bot_send_message_shape:
  "\<exists>r s'. bot_send_message E uid text s = (r, s')
      \<and> trace s' = trace s @ [SendMessage uid text r] \<and> fsm s' = fsm s"
  by (simp add: bot_send_message_def emit_def split: prod.splits)

text \<open>
  Whatever the Bot API answers and whatever happens to the users table meanwhile, the
  loop appends one \<^verbatim>\<open>send_message\<close> call for each id of its list, in the order of the list
  and with the text it was given, and besides those only the sleeps.
\<close>

lemma fan_out_shape:
  "\<exists>evs. trace (fan_out E text uids s) = trace s @ evs \<and> send_targets evs = uids
     \<and> set (send_texts evs) \<subseteq> {text} \<and> list_all loop_event evs
     \<and> fsm (fan_out E text uids s) = fsm s"
proof (induction uids arbitrary: s)
  case Nil
  show ?case by simp
next
  case (Cons uid uids)
  obtain r s1 where b: "bot_send_message E uid text s = (r, s1)"
    and t1: "trace s1 = trace s @ [SendMessage uid text r]" and f1: "fsm s1 = fsm s"
    using bot_send_message_shape by blast
  show ?case
  proof (cases r)
    case None
    from Cons.IH [of "suspend E (emit Sleep s1)"] obtain evs where
      "trace (fan_out E text uids (suspend E (emit Sleep s1)))
         = trace (suspend E (emit Sleep s1)) @ evs"
      "send_targets evs = uids" "set (send_texts evs) \<subseteq> {text}" "list_all loop_event evs"
      "fsm (fan_out E text uids (suspend E (emit Sleep s1))) = fsm (suspend E (emit Sleep s1))"
      by blast
    with None b t1 f1 show ?thesis
      by (intro exI [of _ "SendMessage uid text r # Sleep # evs"])
         (simp add: emit_simps suspend_simps)
  next
    case (Some e)
    from Cons.IH [of "suspend E s1"] obtain evs where
      "trace (fan_out E text uids (suspend E s1)) = trace (suspend E s1) @ evs"
      "send_targets evs = uids" "set (send_texts evs) \<subseteq> {text}" "list_all loop_event evs"
      "fsm (fan_out E text uids (suspend E s1)) = fsm (suspend E s1)"
      by blast
    with Some b t1 f1 show ?thesis
      by (intro exI [of _ "SendMessage uid text r # evs"])
         (simp add: emit_simps suspend_simps)
  qed
qed

lemma fan_out_attempts_all:
  "send_targets (appended s (fan_out E text uids s)) = uids"
  using fan_out_shape [of E "text" uids s] by (auto simp: appended_def)

subsection \<open>A confirmed broadcast\<close>

text \<open>
  The handler up to the first notice: it reads the stored data, clears the session,
  reads the users table, as other handlers have left it by then, and sends the notice.
\<close>

lemma broadcast_confirm_unfold:
  assumes "msg_text m = Some t" and "upper E t = py_str ''YES''"
    and "fsm_data (fsm s (key_of m)) ''text'' = Some text"
  shows "broadcast_confirm E m s =
     (case message_answer E m BroadcastStarted
             (emit SelectUserIds
                (suspend E (state_clear (key_of m) (emit (GetData (key_of m)) s)))) of
        (Some e, s3) \<Rightarrow> (Some e, s3)
      | (None, s3) \<Rightarrow>
          message_answer E m BroadcastFinished
            (fan_out E text (sql_select_user_ids (concurrent E (tg s) (users s)))
               (suspend E s3)))"
  using assms
  by (simp add: broadcast_confirm_def state_get_data_def get_all_user_ids_def
      state_clear_def emit_def suspend_def split: prod.splits option.splits)

text \<open>When the first notice raises, the handler ends there.\<close>

lemma broadcast_confirm_start_raises:
  assumes "msg_text m = Some t" and "upper E t = py_str ''YES''"
    and "fsm_data (fsm s (key_of m)) ''text'' = Some text"
    and "fst (send_answer E (tg s) (msg_chat m) BroadcastStarted) = Some e"
  shows "fst (broadcast_confirm E m s) = Some e
     \<and> appended s (snd (broadcast_confirm E m s))
         = [GetData (key_of m), ClearState (key_of m), SelectUserIds,
            Answer (msg_chat m) BroadcastStarted (Some e)]
     \<and> fsm (snd (broadcast_confirm E m s)) = (fsm s)(key_of m := idle_ctx)"
proof -
  obtain w where a: "send_answer E (tg s) (msg_chat m) BroadcastStarted = (Some e, w)"
    using assms(4) by (cases "send_answer E (tg s) (msg_chat m) BroadcastStarted") simp
  show ?thesis
    by (simp add: broadcast_confirm_unfold [OF assms(1,2,3)] message_answer_def a
        state_clear_def emit_def suspend_def appended_def)
qed

text \<open>When the first notice goes through, the loop runs and the second notice follows it.\<close>

lemma broadcast_confirm_yes:
  assumes "msg_text m = Some t" and "upper E t = py_str ''YES''"
    and "fsm_data (fsm s (key_of m)) ''text'' = Some text"
    and "fst (send_answer E (tg s) (msg_chat m) BroadcastStarted) = None"
  shows "\<exists>evs. appended s (snd (broadcast_confirm E m s))
         = [GetData (key_of m), ClearState (key_of m), SelectUserIds,
            Answer (msg_chat m) BroadcastStarted None]
           @ evs @ [Answer (msg_chat m) BroadcastFinished (fst (broadcast_confirm E m s))]
     \<and> send_targets evs = sql_select_user_ids (concurrent E (tg s) (users s))
     \<and> set (send_texts evs) \<subseteq> {text} \<and> list_all loop_event evs
     \<and> fsm (snd (broadcast_confirm E m s)) = (fsm s)(key_of m := idle_ctx)"
proof -
  let ?k = "key_of m"
  let ?ids = "sql_select_user_ids (concurrent E (tg s) (users s))"
  obtain w where a: "send_answer E (tg s) (msg_chat m) BroadcastStarted = (None, w)"
    using assms(4) by (cases "send_answer E (tg s) (msg_chat m) BroadcastStarted") simp
  let ?s3 = "emit (Answer (msg_chat m) BroadcastStarted None)
               ((emit SelectUserIds (suspend E (state_clear ?k (emit (GetData ?k) s))))
                  \<lparr>tg := w\<rparr>)"
  let ?s4 = "fan_out E text ?ids (suspend E ?s3)"
  have bc: "broadcast_confirm E m s = message_answer E m BroadcastFinished ?s4"
    by (simp add: broadcast_confirm_unfold [OF assms(1,2,3)] message_answer_def a
        state_clear_def emit_def suspend_def)
  obtain evs where ev:
    "trace ?s4 = trace (suspend E ?s3) @ evs"
    "send_targets evs = ?ids" "set (send_texts evs) \<subseteq> {text}"
    "list_all loop_event evs" "fsm ?s4 = fsm (suspend E ?s3)"
    using fan_out_shape by blast
  obtain r s' where f: "message_answer E m BroadcastFinished ?s4 = (r, s')"
    and tf: "trace s' = trace ?s4 @ [Answer (msg_chat m) BroadcastFinished r]"
    and ff: "fsm s' = fsm ?s4"
    using message_answer_shape by blast
  have t3: "trace (suspend E ?s3) = trace s @ [GetData ?k, ClearState ?k, SelectUserIds,
            Answer (msg_chat m) BroadcastStarted None]"
    and f3: "fsm (suspend E ?s3) = (fsm s)(?k := idle_ctx)"
    by (simp_all add: emit_def suspend_def state_clear_def)
  have "appended s s' = [GetData ?k, ClearState ?k, SelectUserIds,
            Answer (msg_chat m) BroadcastStarted None] @ evs
          @ [Answer (msg_chat m) BroadcastFinished r]"
    unfolding appended_def tf ev(1) t3 by simp
  moreover have "fsm s' = (fsm s)(?k := idle_ctx)"
    unfolding ff ev(5) f3 ..
  ultimately show ?thesis
    using ev(2,3,4) by (intro exI [of _ evs]) (simp add: bc f)
qed

subsection \<open>The concrete deployment\<close>

lemma demo_awaiting_confirm_eq:
  "demo_awaiting_confirm =
     \<lparr>users = [(2, row0), (3, row0), (4, row0)],
      fsm = (\<lambda>k. idle_ctx)
        ((1, 1) := \<lparr>fsm_state = Some waiting_confirm,
                     fsm_data = [''text'' \<mapsto> Some (py_str ''hello'')]\<rparr>),
      tg = 0,
      trace = [SetState (1, 1) waiting_text, Answer 1 SendBroadcastText None,
               UpdateData (1, 1) (Some (py_str ''hello'')), SetState (1, 1) waiting_confirm,
               Answer 1 ConfirmPrompt None]\<rparr>"
  by (simp add: demo_defs handler_defs Let_def)

text \<open>
  The administrator confirms. User 3 has blocked the bot; users 2 and 4 are served all
  the same. User 9 registers during the run and is in the table at its end.
\<close>

lemma demo_broadcast_run:
  "appended demo_awaiting_confirm
     (snd (broadcast_confirm demo_env (op_msg (Some (py_str ''yes''))) demo_awaiting_confirm))
     = [GetData (1, 1), ClearState (1, 1), SelectUserIds,
        Answer 1 BroadcastStarted None, SendMessage 2 (Some (py_str ''hello'')) None, Sleep,
        SendMessage 3 (Some (py_str ''hello'')) (Some TelegramForbiddenError),
        SendMessage 4 (Some (py_str ''hello'')) None, Sleep, Answer 1 BroadcastFinished None]"
  "map fst (users
     (snd (broadcast_confirm demo_env (op_msg (Some (py_str ''yes''))) demo_awaiting_confirm)))
     = [2, 3, 4, 9]"
  by (simp_all add: demo_awaiting_confirm_eq)
     (simp_all add: demo_env_def op_msg_def row0_def handler_defs Let_def)

lemma demo_yes:
  "msg_text (op_msg (Some t)) = Some t"
  "key_of (op_msg (Some t)) = (1, 1)"
  "msg_chat (op_msg (Some t)) = 1"
  "command_source (op_msg (Some (py_str ''yes''))) = Some (py_str ''yes'')"
  "command_source (op_msg (Some (py_str ''no''))) = Some (py_str ''no'')"
  "upper demo_env (py_str ''yes'') = py_str ''YES''"
  "upper demo_env (py_str ''no'') \<noteq> py_str ''YES''"
  "upper demo_env_offline (py_str ''yes'') = py_str ''YES''"
  "fsm_state (fsm demo_awaiting_confirm (1, 1)) = Some waiting_confirm"
  "fsm_data (fsm demo_awaiting_confirm (1, 1)) ''text'' = Some (Some (py_str ''hello''))"
  "tg demo_awaiting_confirm = 0"
  "users demo_awaiting_confirm = [(2, row0), (3, row0), (4, row0)]"
  by (simp_all add: demo_awaiting_confirm_eq)
     (simp_all add: op_msg_def key_of_def command_source_def upper_def upper_cp_def py_str_def
        demo_env_def demo_env_offline_def)

subsection \<open>Starting and cancelling\<close>

text \<open>
  Claim C7. For a user who is not in \<open>ADMINS\<close>, \<^verbatim>\<open>broadcast_start\<close> returns with the world
  as it was: no FSM state is set and nothing at all is sent. The same holds of the
  \<^verbatim>\<open>/broadcast\<close> command as the dispatcher routes it.
\<close>

theorem broadcast_start_non_admin_noop:
  assumes "msg_from m \<notin> ADMINS E"
  shows "broadcast_start E m s = (None, s)
       \<and> (command_of E (command_source m) = Some (py_str ''broadcast'') \<longrightarrow>
            dp_message E m s = (None, s))"
  using assms by (simp add: broadcast_start_def is_admin_def dp_message_def py_str_def)

text \<open>User 2 of the concrete deployment sends \<^verbatim>\<open>/broadcast\<close>.\<close>

theorem broadcast_start_non_admin_noop_witness:
  "msg_from (user_msg 2 (Some (py_str ''/broadcast''))) \<notin> ADMINS demo_env
   \<and> command_of demo_env (command_source (user_msg 2 (Some (py_str ''/broadcast''))))
       = Some (py_str ''broadcast'')
   \<and> broadcast_start demo_env (user_msg 2 (Some (py_str ''/broadcast''))) demo_world
       = (None, demo_world)
   \<and> dp_message demo_env (user_msg 2 (Some (py_str ''/broadcast''))) demo_world
       = (None, demo_world)"
proof -
  have h: "msg_from (user_msg 2 (Some (py_str ''/broadcast''))) \<notin> ADMINS demo_env"
    by (simp add: user_msg_def demo_env_def)
  have c: "command_of demo_env (command_source (user_msg 2 (Some (py_str ''/broadcast''))))
       = Some (py_str ''broadcast'')"
    by (simp add: user_msg_def command_source_def command_of_def is_space_def py_str_def
        demo_env_def)
  show ?thesis
    using h c broadcast_start_non_admin_noop [OF h, of demo_world] by simp
qed

text \<open>
  Claim C3 asks that \<^verbatim>\<open>/cancel\<close> ends a session in either phase. The administrator
  sends \<^verbatim>\<open>/cancel\<close> while the bot waits for the text: the handler of that state takes the
  message, stores \<^verbatim>\<open>/cancel\<close> as the text to broadcast, moves on to the confirmation and
  asks for it. The administrator sends \<^verbatim>\<open>/cancel\<close> while the bot waits for the
  confirmation: the handler of that state answers that the broadcast is not confirmed,
  and the session stays as it was. In neither case is \<^verbatim>\<open>cancel\<close> called.
\<close>

theorem cancel_command_captured_by_state_handlers:
  "fsm_state (fsm demo_awaiting_text (key_of (op_msg (Some (py_str ''/cancel'')))))
       = Some waiting_text
   \<and> fst (dp_message demo_env (op_msg (Some (py_str ''/cancel''))) demo_awaiting_text) = None
   \<and> fsm (snd (dp_message demo_env (op_msg (Some (py_str ''/cancel''))) demo_awaiting_text))
        (1, 1)
       = \<lparr>fsm_state = Some waiting_confirm,
          fsm_data = [''text'' \<mapsto> Some (py_str ''/cancel'')]\<rparr>
   \<and> appended demo_awaiting_text
        (snd (dp_message demo_env (op_msg (Some (py_str ''/cancel''))) demo_awaiting_text))
       = [UpdateData (1, 1) (Some (py_str ''/cancel'')), SetState (1, 1) waiting_confirm,
          Answer 1 ConfirmPrompt None]
   \<and> fsm_state (fsm demo_awaiting_confirm (key_of (op_msg (Some (py_str ''/cancel'')))))
       = Some waiting_confirm
   \<and> dp_message demo_env (op_msg (Some (py_str ''/cancel''))) demo_awaiting_confirm
       = (None, emit (Answer 1 NotConfirmed None) demo_awaiting_confirm)"
  by (simp add: demo_defs handler_defs Let_def)

subsection \<open>Confirming\<close>

text \<open>
  Claim C4, as the module has it. The sender is in the state \<^verbatim>\<open>waiting_confirm\<close>, a
  text to broadcast is stored, and the message has a text whose first word is none of
  the commands \<^verbatim>\<open>/id\<close>, \<^verbatim>\<open>/start\<close>, \<^verbatim>\<open>/admin\<close>, \<^verbatim>\<open>/stats\<close>, \<^verbatim>\<open>/broadcast\<close>: those keep
  their own handlers in every phase. The text counts as the confirmation when
  \<^verbatim>\<open>upper\<close> maps it to \<^verbatim>\<open>YES\<close>, which for a text in ASCII means that it is \<^verbatim>\<open>YES\<close> in some
  letter case. If so, the session is cleared, every \<^verbatim>\<open>send_message\<close> call carries the
  stored text, the clearing of the session comes second in what is done, after the
  reading of the stored data only, hence before every call of the loop, and when the
  notice that the broadcast has started goes through, the calls go to the ids of the
  users table. If not, the answer that the broadcast is not confirmed is sent and nothing
  else is done: the FSM storage, with the state and the stored text, and the users table
  are what they were.
\<close>

theorem broadcast_confirm_decision:
  assumes "fsm_state (fsm s (key_of m)) = Some waiting_confirm"
    and "command_of E (command_source m) \<notin>
     {Some (py_str ''id''), Some (py_str ''start''), Some (py_str ''admin''),
      Some (py_str ''stats''), Some (py_str ''broadcast'')}"
    and "msg_text m = Some t"
    and "fsm_data (fsm s (key_of m)) ''text'' = Some text"
  shows "(list_all (\<lambda>c. c < 128) t \<longrightarrow>
            (upper E t = py_str ''YES'') =
            (t \<in> py_str `
               {''YES'', ''YEs'', ''YeS'', ''Yes'', ''yES'', ''yEs'', ''yeS'', ''yes''}))
       \<and> (upper E t = py_str ''YES'' \<longrightarrow>
            fsm (snd (dp_message E m s)) (key_of m) = idle_ctx
          \<and> set (send_texts (appended s (snd (dp_message E m s)))) \<subseteq> {text}
          \<and> takeWhile (\<lambda>e. e \<noteq> ClearState (key_of m))
               (appended s (snd (dp_message E m s))) = [GetData (key_of m)]
          \<and> ClearState (key_of m) \<in> set (appended s (snd (dp_message E m s)))
          \<and> (fst (send_answer E (tg s) (msg_chat m) BroadcastStarted) = None \<longrightarrow>
               send_targets (appended s (snd (dp_message E m s)))
                 = sql_select_user_ids (concurrent E (tg s) (users s))))
       \<and> (upper E t \<noteq> py_str ''YES'' \<longrightarrow>
            fst (dp_message E m s) = fst (send_answer E (tg s) (msg_chat m) NotConfirmed)
          \<and> appended s (snd (dp_message E m s))
              = [Answer (msg_chat m) NotConfirmed (fst (dp_message E m s))]
          \<and> fsm (snd (dp_message E m s)) = fsm s
          \<and> users (snd (dp_message E m s)) = users s)"
proof -
  have dp: "dp_message E m s = broadcast_confirm E m s"
    by (rule dp_message_in_state(2) [OF assms(2,1)])
  show ?thesis
    unfolding dp
  proof (intro conjI impI)
    assume "list_all (\<lambda>c. c < 128) t"
    then show "(upper E t = py_str ''YES'') =
            (t \<in> py_str `
               {''YES'', ''YEs'', ''YeS'', ''Yes'', ''yES'', ''yEs'', ''yeS'', ''yes''})"
      by (rule upper_YES_iff)
  next
    assume n: "upper E t \<noteq> py_str ''YES''"
    then have bc: "broadcast_confirm E m s = message_answer E m NotConfirmed s"
      using assms(3) by (simp add: broadcast_confirm_def)
    obtain r s' where a: "message_answer E m NotConfirmed s = (r, s')"
      and r: "r = fst (send_answer E (tg s) (msg_chat m) NotConfirmed)"
      and tr: "trace s' = trace s @ [Answer (msg_chat m) NotConfirmed r]"
      and f: "fsm s' = fsm s" and u: "users s' = users s"
      using message_answer_shape by blast
    show "fst (broadcast_confirm E m s) = fst (send_answer E (tg s) (msg_chat m) NotConfirmed)"
      and "appended s (snd (broadcast_confirm E m s))
              = [Answer (msg_chat m) NotConfirmed (fst (broadcast_confirm E m s))]"
      and "fsm (snd (broadcast_confirm E m s)) = fsm s"
      and "users (snd (broadcast_confirm E m s)) = users s"
      using r tr f u by (simp_all add: bc a appended_def)
  next
    assume y: "upper E t = py_str ''YES''"
    let ?a = "appended s (snd (broadcast_confirm E m s))"
    have shape: "\<exists>evs post. ?a = [GetData (key_of m), ClearState (key_of m), SelectUserIds]
            @ post @ evs
          \<and> send_targets post = [] \<and> send_texts post = []
          \<and> set (send_texts evs) \<subseteq> {text}
          \<and> fsm (snd (broadcast_confirm E m s)) = (fsm s)(key_of m := idle_ctx)"
    proof (cases "fst (send_answer E (tg s) (msg_chat m) BroadcastStarted)")
      case None
      from broadcast_confirm_yes [OF assms(3) y assms(4) None] obtain evs where
        "?a = [GetData (key_of m), ClearState (key_of m), SelectUserIds,
            Answer (msg_chat m) BroadcastStarted None]
           @ evs @ [Answer (msg_chat m) BroadcastFinished (fst (broadcast_confirm E m s))]"
        "set (send_texts evs) \<subseteq> {text}"
        "fsm (snd (broadcast_confirm E m s)) = (fsm s)(key_of m := idle_ctx)"
        by blast
      then show ?thesis
        by (intro exI [of _ "evs @ [Answer (msg_chat m) BroadcastFinished
                (fst (broadcast_confirm E m s))]"]
            exI [of _ "[Answer (msg_chat m) BroadcastStarted None]"])
           (simp add: send_texts_append)
    next
      case (Some e)
      from broadcast_confirm_start_raises [OF assms(3) y assms(4) Some] show ?thesis
        by (intro exI [of _ "[]"]
            exI [of _ "[Answer (msg_chat m) BroadcastStarted (Some e)]"]) simp
    qed
    then obtain evs post where
      a: "?a = [GetData (key_of m), ClearState (key_of m), SelectUserIds] @ post @ evs"
      and tx: "send_texts post = []" "set (send_texts evs) \<subseteq> {text}"
      and f: "fsm (snd (broadcast_confirm E m s)) = (fsm s)(key_of m := idle_ctx)"
      by auto
    show "fsm (snd (broadcast_confirm E m s)) (key_of m) = idle_ctx"
      by (simp add: f)
    show "set (send_texts ?a) \<subseteq> {text}"
      using tx by (simp add: a send_texts_append)
    show "takeWhile (\<lambda>e. e \<noteq> ClearState (key_of m)) ?a = [GetData (key_of m)]"
      by (simp add: a)
    show "ClearState (key_of m) \<in> set ?a"
      by (simp add: a)
    assume ok: "fst (send_answer E (tg s) (msg_chat m) BroadcastStarted) = None"
    from broadcast_confirm_yes [OF assms(3) y assms(4) ok] obtain evs' where
      "?a = [GetData (key_of m), ClearState (key_of m), SelectUserIds,
            Answer (msg_chat m) BroadcastStarted None]
           @ evs' @ [Answer (msg_chat m) BroadcastFinished (fst (broadcast_confirm E m s))]"
      "send_targets evs' = sql_select_user_ids (concurrent E (tg s) (users s))"
      by blast
    then show "send_targets ?a = sql_select_user_ids (concurrent E (tg s) (users s))"
      by (simp add: send_targets_append)
  qed
qed

text \<open>The administrator of the concrete deployment answers \<^verbatim>\<open>yes\<close>, or \<^verbatim>\<open>no\<close>.\<close>

theorem broadcast_confirm_decision_witness:
  "fsm_state (fsm demo_awaiting_confirm (key_of (op_msg (Some (py_str ''yes'')))))
       = Some waiting_confirm
   \<and> command_of demo_env (command_source (op_msg (Some (py_str ''yes'')))) = None
   \<and> command_of demo_env (command_source (op_msg (Some (py_str ''no'')))) = None
   \<and> msg_text (op_msg (Some (py_str ''yes''))) = Some (py_str ''yes'')
   \<and> msg_text (op_msg (Some (py_str ''no''))) = Some (py_str ''no'')
   \<and> fsm_data (fsm demo_awaiting_confirm (key_of (op_msg (Some (py_str ''yes''))))) ''text''
        = Some (Some (py_str ''hello''))
   \<and> list_all (\<lambda>c. c < 128) (py_str ''yes'')
   \<and> upper demo_env (py_str ''yes'') = py_str ''YES''
   \<and> upper demo_env (py_str ''no'') \<noteq> py_str ''YES''
   \<and> fst (send_answer demo_env (tg demo_awaiting_confirm) 1 BroadcastStarted) = None
   \<and> fsm (snd (dp_message demo_env (op_msg (Some (py_str ''yes''))) demo_awaiting_confirm))
        (1, 1) = idle_ctx
   \<and> send_targets (appended demo_awaiting_confirm
        (snd (dp_message demo_env (op_msg (Some (py_str ''yes''))) demo_awaiting_confirm)))
        = [2, 3, 4]
   \<and> set (send_texts (appended demo_awaiting_confirm
        (snd (dp_message demo_env (op_msg (Some (py_str ''yes''))) demo_awaiting_confirm))))
        \<subseteq> {Some (py_str ''hello'')}
   \<and> appended demo_awaiting_confirm
        (snd (dp_message demo_env (op_msg (Some (py_str ''no''))) demo_awaiting_confirm))
        = [Answer 1 NotConfirmed None]
   \<and> fsm (snd (dp_message demo_env (op_msg (Some (py_str ''no''))) demo_awaiting_confirm))
        = fsm demo_awaiting_confirm"
proof -
  have st: "fsm_state (fsm demo_awaiting_confirm (key_of (op_msg (Some (py_str ''yes'')))))
       = Some waiting_confirm"
    and st': "fsm_state (fsm demo_awaiting_confirm (key_of (op_msg (Some (py_str ''no'')))))
       = Some waiting_confirm"
    by (simp_all add: demo_yes)
  have cy: "command_of demo_env (command_source (op_msg (Some (py_str ''yes'')))) = None"
    and cn: "command_of demo_env (command_source (op_msg (Some (py_str ''no'')))) = None"
    by (simp_all add: demo_yes) (simp_all add: command_of_def is_space_def py_str_def)
  have ry: "command_of demo_env (command_source (op_msg (Some (py_str ''yes'')))) \<notin>
     {Some (py_str ''id''), Some (py_str ''start''), Some (py_str ''admin''),
      Some (py_str ''stats''), Some (py_str ''broadcast'')}"
    and rn: "command_of demo_env (command_source (op_msg (Some (py_str ''no'')))) \<notin>
     {Some (py_str ''id''), Some (py_str ''start''), Some (py_str ''admin''),
      Some (py_str ''stats''), Some (py_str ''broadcast'')}"
    by (simp_all add: cy cn)
  have y: "msg_text (op_msg (Some (py_str ''yes''))) = Some (py_str ''yes'')"
    and n: "msg_text (op_msg (Some (py_str ''no''))) = Some (py_str ''no'')"
    by (simp_all add: demo_yes)
  have d: "fsm_data (fsm demo_awaiting_confirm (key_of (op_msg (Some (py_str ''yes''))))) ''text''
        = Some (Some (py_str ''hello''))"
    and d': "fsm_data (fsm demo_awaiting_confirm (key_of (op_msg (Some (py_str ''no''))))) ''text''
        = Some (Some (py_str ''hello''))"
    by (simp_all add: demo_yes)
  have asc: "list_all (\<lambda>c. c < 128) (py_str ''yes'')"
    by (simp add: py_str_def)
  have ok: "fst (send_answer demo_env (tg demo_awaiting_confirm) 1 BroadcastStarted) = None"
    and nc: "fst (send_answer demo_env (tg demo_awaiting_confirm) 1 NotConfirmed) = None"
    by (simp_all add: demo_env_def)
  have ids: "sql_select_user_ids
       (concurrent demo_env (tg demo_awaiting_confirm) (users demo_awaiting_confirm)) = [2, 3, 4]"
    by (simp add: demo_yes) (simp add: demo_env_def sql_select_user_ids_def)
  show ?thesis
    using st cy cn y n d asc ok nc ids demo_yes(2,3,6,7)
      broadcast_confirm_decision [OF st ry y d]
      broadcast_confirm_decision [OF st' rn n d']
    by simp
qed

text \<open>
  Claim C4 as it is worded has every text other than \<^verbatim>\<open>YES\<close> in some letter case
  answered with "not confirmed", the session left where it was. The administrator, asked
  to confirm, sends \<^verbatim>\<open>/broadcast\<close>: the handler of that command runs, the session goes back
  to the state \<^verbatim>\<open>waiting_text\<close>, and the answer asks for a text. And the administrator
  sends the word \<^verbatim>\<open>yes\<close> written with a long s, which is none of the eight spellings:
  \<^verbatim>\<open>upper\<close> maps it to \<^verbatim>\<open>YES\<close>, and the broadcast runs.
\<close>

theorem broadcast_confirm_decision_counterexample:
  "fsm_state (fsm demo_awaiting_confirm (key_of (op_msg (Some (py_str ''/broadcast'')))))
       = Some waiting_confirm
   \<and> upper demo_env (py_str ''/broadcast'') \<noteq> py_str ''YES''
   \<and> fsm_state (fsm (snd (dp_message demo_env (op_msg (Some (py_str ''/broadcast'')))
        demo_awaiting_confirm)) (1, 1)) = Some waiting_text
   \<and> appended demo_awaiting_confirm
        (snd (dp_message demo_env (op_msg (Some (py_str ''/broadcast''))) demo_awaiting_confirm))
       = [SetState (1, 1) waiting_text, Answer 1 SendBroadcastText None]
   \<and> yes_long_s \<notin> py_str `
        {''YES'', ''YEs'', ''YeS'', ''Yes'', ''yES'', ''yEs'', ''yeS'', ''yes''}
   \<and> unicode_upper demo_env 383 = [83]
   \<and> send_targets (appended demo_awaiting_confirm
        (snd (dp_message demo_env (op_msg (Some yes_long_s)) demo_awaiting_confirm)))
       = [2, 3, 4]
   \<and> fsm (snd (dp_message demo_env (op_msg (Some yes_long_s)) demo_awaiting_confirm)) (1, 1)
       = idle_ctx"
  by (simp add: demo_awaiting_confirm_eq)
     (simp add: demo_env_def op_msg_def row0_def yes_long_s_def handler_defs Let_def)

text \<open>
  Claim C10 is about a message that carries no text. \<^verbatim>\<open>broadcast_confirm\<close> then raises
  \<^verbatim>\<open>AttributeError\<close> at \<^verbatim>\<open>message.text.upper()\<close>, before it answers or changes anything. The
  dispatcher routes such a message to it: the administrator of the concrete deployment,
  asked to confirm, sends a photo without a caption.
\<close>

theorem broadcast_confirm_no_text_raises:
  "broadcast_confirm E (m\<lparr>msg_text := None\<rparr>) s = (Some AttributeError, s)
   \<and> fsm_state (fsm demo_awaiting_confirm (key_of (op_msg None))) = Some waiting_confirm
   \<and> dp_message demo_env (op_msg None) demo_awaiting_confirm
        = (Some AttributeError, demo_awaiting_confirm)"
  by (simp add: demo_defs handler_defs Let_def)

subsection \<open>Delivering\<close>

text \<open>
  Claim C5, as the module has it. In a confirmed broadcast whose notice that the
  broadcast has started goes through, whatever the Bot API answers to the calls of the
  loop, \<^verbatim>\<open>send_message\<close> is called for the ids the table had when it was read, each once
  and in the order of the list, and the notice that the broadcast is finished is sent
  exactly once, as the last thing the handler does; what that call raises, if anything,
  leaves the handler. When the first notice raises, its exception leaves the handler:
  \<^verbatim>\<open>send_message\<close> is not called and the second notice is not sent.
\<close>

theorem fan_out_reaches_every_recipient:
  assumes "msg_text m = Some t" and "upper E t = py_str ''YES''"
    and "fsm_data (fsm s (key_of m)) ''text'' = Some text"
  shows "(fst (send_answer E (tg s) (msg_chat m) BroadcastStarted) = None \<longrightarrow>
            send_targets (appended s (snd (broadcast_confirm E m s)))
              = sql_select_user_ids (concurrent E (tg s) (users s))
          \<and> count_list (notices (appended s (snd (broadcast_confirm E m s))))
              (msg_chat m, BroadcastFinished) = 1
          \<and> last (appended s (snd (broadcast_confirm E m s)))
              = Answer (msg_chat m) BroadcastFinished (fst (broadcast_confirm E m s)))
       \<and> (\<forall>e. fst (send_answer E (tg s) (msg_chat m) BroadcastStarted) = Some e \<longrightarrow>
            fst (broadcast_confirm E m s) = Some e
          \<and> send_targets (appended s (snd (broadcast_confirm E m s))) = []
          \<and> count_list (notices (appended s (snd (broadcast_confirm E m s))))
              (msg_chat m, BroadcastFinished) = 0)"
proof (intro conjI impI allI)
  fix e
  assume "fst (send_answer E (tg s) (msg_chat m) BroadcastStarted) = Some e"
  from broadcast_confirm_start_raises [OF assms this]
  show "fst (broadcast_confirm E m s) = Some e"
    and "send_targets (appended s (snd (broadcast_confirm E m s))) = []"
    and "count_list (notices (appended s (snd (broadcast_confirm E m s))))
              (msg_chat m, BroadcastFinished) = 0"
    by simp_all
next
  assume ok: "fst (send_answer E (tg s) (msg_chat m) BroadcastStarted) = None"
  from broadcast_confirm_yes [OF assms ok] obtain evs where
    a: "appended s (snd (broadcast_confirm E m s))
         = [GetData (key_of m), ClearState (key_of m), SelectUserIds,
            Answer (msg_chat m) BroadcastStarted None]
           @ evs @ [Answer (msg_chat m) BroadcastFinished (fst (broadcast_confirm E m s))]"
    and st: "send_targets evs = sql_select_user_ids (concurrent E (tg s) (users s))"
    and le: "list_all loop_event evs"
    by blast
  show "send_targets (appended s (snd (broadcast_confirm E m s)))
              = sql_select_user_ids (concurrent E (tg s) (users s))"
    by (simp add: a st send_targets_append)
  show "count_list (notices (appended s (snd (broadcast_confirm E m s))))
              (msg_chat m, BroadcastFinished) = 1"
    by (simp add: a notices_append notices_loop_events [OF le])
  show "last (appended s (snd (broadcast_confirm E m s)))
              = Answer (msg_chat m) BroadcastFinished (fst (broadcast_confirm E m s))"
    by (simp add: a)
qed

text \<open>
  In the concrete deployment the delivery to user 3, the second of three, fails; user 4
  is served after it.
\<close>

theorem fan_out_reaches_every_recipient_witness:
  "msg_text (op_msg (Some (py_str ''yes''))) = Some (py_str ''yes'')
   \<and> upper demo_env (py_str ''yes'') = py_str ''YES''
   \<and> fsm_data (fsm demo_awaiting_confirm (key_of (op_msg (Some (py_str ''yes''))))) ''text''
        = Some (Some (py_str ''hello''))
   \<and> fst (send_answer demo_env (tg demo_awaiting_confirm)
        (msg_chat (op_msg (Some (py_str ''yes'')))) BroadcastStarted) = None
   \<and> SendMessage 3 (Some (py_str ''hello'')) (Some TelegramForbiddenError)
        \<in> set (appended demo_awaiting_confirm
            (snd (broadcast_confirm demo_env (op_msg (Some (py_str ''yes'')))
               demo_awaiting_confirm)))
   \<and> fst (broadcast_confirm demo_env (op_msg (Some (py_str ''yes''))) demo_awaiting_confirm)
        = None
   \<and> send_targets (appended demo_awaiting_confirm
        (snd (broadcast_confirm demo_env (op_msg (Some (py_str ''yes''))) demo_awaiting_confirm)))
        = [2, 3, 4]
   \<and> count_list (notices (appended demo_awaiting_confirm
        (snd (broadcast_confirm demo_env (op_msg (Some (py_str ''yes'')))
           demo_awaiting_confirm)))) (1, BroadcastFinished) = 1
   \<and> last (appended demo_awaiting_confirm
        (snd (broadcast_confirm demo_env (op_msg (Some (py_str ''yes''))) demo_awaiting_confirm)))
        = Answer 1 BroadcastFinished None"
proof -
  have y: "msg_text (op_msg (Some (py_str ''yes''))) = Some (py_str ''yes'')"
    by (simp add: demo_yes)
  have d: "fsm_data (fsm demo_awaiting_confirm (key_of (op_msg (Some (py_str ''yes''))))) ''text''
        = Some (Some (py_str ''hello''))"
    by (simp add: demo_yes)
  have u: "upper demo_env (py_str ''yes'') = py_str ''YES''"
    by (rule demo_yes)
  have ok: "fst (send_answer demo_env (tg demo_awaiting_confirm)
        (msg_chat (op_msg (Some (py_str ''yes'')))) BroadcastStarted) = None"
    by (simp add: demo_env_def)
  have ids: "sql_select_user_ids
       (concurrent demo_env (tg demo_awaiting_confirm) (users demo_awaiting_confirm)) = [2, 3, 4]"
    by (simp add: demo_yes) (simp add: demo_env_def sql_select_user_ids_def)
  have f: "SendMessage 3 (Some (py_str ''hello'')) (Some TelegramForbiddenError)
        \<in> set (appended demo_awaiting_confirm
            (snd (broadcast_confirm demo_env (op_msg (Some (py_str ''yes'')))
               demo_awaiting_confirm)))"
    and r: "fst (broadcast_confirm demo_env (op_msg (Some (py_str ''yes'')))
               demo_awaiting_confirm) = None"
    using demo_broadcast_run(1)
      broadcast_confirm_yes [OF y u d ok]
    by auto
  show ?thesis
    using y u d ok f r ids demo_yes(3) fan_out_reaches_every_recipient [OF y u d]
    by simp
qed

text \<open>
  Claim C5 as it is worded has the notice that the broadcast is finished sent once in
  every confirmed broadcast, and every id of the list tried. The administrator confirms
  at a time when no reply goes through: the notice that the broadcast has started
  raises, the exception leaves the handler, and of the three users none is tried and no
  second notice is sent.
\<close>

theorem fan_out_reaches_every_recipient_counterexample:
  "upper demo_env_offline (py_str ''yes'') = py_str ''YES''
   \<and> sql_select_user_ids (users demo_awaiting_confirm) = [2, 3, 4]
   \<and> fst (broadcast_confirm demo_env_offline (op_msg (Some (py_str ''yes'')))
        demo_awaiting_confirm) = Some TelegramNetworkError
   \<and> appended demo_awaiting_confirm
        (snd (broadcast_confirm demo_env_offline (op_msg (Some (py_str ''yes'')))
           demo_awaiting_confirm))
       = [GetData (1, 1), ClearState (1, 1), SelectUserIds,
          Answer 1 BroadcastStarted (Some TelegramNetworkError)]"
  by (simp add: demo_awaiting_confirm_eq)
     (simp add: demo_env_offline_def demo_env_def op_msg_def row0_def handler_defs Let_def)

text \<open>
  Claim C6. In a confirmed broadcast the users table is read exactly once, before any
  \<^verbatim>\<open>send_message\<close> call, and the calls go to ids the table had at that reading, to all of
  them when the notice that the broadcast has started goes through, whatever other
  handlers do to the table during the run. A user who was not in the table when it was
  read receives nothing from this run.
\<close>

theorem broadcast_audience_is_the_snapshot:
  assumes "msg_text m = Some t" and "upper E t = py_str ''YES''"
    and "fsm_data (fsm s (key_of m)) ''text'' = Some text"
  shows "count_list (appended s (snd (broadcast_confirm E m s))) SelectUserIds = 1
       \<and> send_targets (takeWhile (\<lambda>e. e \<noteq> SelectUserIds)
            (appended s (snd (broadcast_confirm E m s)))) = []
       \<and> set (send_targets (appended s (snd (broadcast_confirm E m s))))
            \<subseteq> fst ` set (concurrent E (tg s) (users s))
       \<and> (fst (send_answer E (tg s) (msg_chat m) BroadcastStarted) = None \<longrightarrow>
            set (send_targets (appended s (snd (broadcast_confirm E m s))))
              = fst ` set (concurrent E (tg s) (users s)))
       \<and> (uid \<notin> fst ` set (concurrent E (tg s) (users s)) \<longrightarrow>
            uid \<notin> set (send_targets (appended s (snd (broadcast_confirm E m s)))))"
proof (cases "fst (send_answer E (tg s) (msg_chat m) BroadcastStarted)")
  case (Some e)
  from broadcast_confirm_start_raises [OF assms Some] show ?thesis
    using Some by simp
next
  case None
  from broadcast_confirm_yes [OF assms None] obtain evs where
    a: "appended s (snd (broadcast_confirm E m s))
         = [GetData (key_of m), ClearState (key_of m), SelectUserIds,
            Answer (msg_chat m) BroadcastStarted None]
           @ evs @ [Answer (msg_chat m) BroadcastFinished (fst (broadcast_confirm E m s))]"
    and st: "send_targets evs = sql_select_user_ids (concurrent E (tg s) (users s))"
    and le: "list_all loop_event evs"
    by blast
  have "count_list evs SelectUserIds = 0"
    using le by (simp add: count_list_loop_events)
  then show ?thesis
    by (simp add: a st send_targets_append sql_select_user_ids_def)
qed

text \<open>
  In the concrete deployment user 9 registers while the loop runs: user 9 is in the
  table when the handler returns and has received nothing.
\<close>

theorem broadcast_audience_is_the_snapshot_witness:
  "msg_text (op_msg (Some (py_str ''yes''))) = Some (py_str ''yes'')
   \<and> upper demo_env (py_str ''yes'') = py_str ''YES''
   \<and> fsm_data (fsm demo_awaiting_confirm (key_of (op_msg (Some (py_str ''yes''))))) ''text''
        = Some (Some (py_str ''hello''))
   \<and> fst (send_answer demo_env (tg demo_awaiting_confirm)
        (msg_chat (op_msg (Some (py_str ''yes'')))) BroadcastStarted) = None
   \<and> 9 \<notin> fst ` set (concurrent demo_env (tg demo_awaiting_confirm)
        (users demo_awaiting_confirm))
   \<and> 9 \<in> fst ` set (users
        (snd (broadcast_confirm demo_env (op_msg (Some (py_str ''yes'')))
           demo_awaiting_confirm)))
   \<and> 9 \<notin> set (send_targets (appended demo_awaiting_confirm
        (snd (broadcast_confirm demo_env (op_msg (Some (py_str ''yes'')))
           demo_awaiting_confirm))))
   \<and> set (send_targets (appended demo_awaiting_confirm
        (snd (broadcast_confirm demo_env (op_msg (Some (py_str ''yes'')))
           demo_awaiting_confirm)))) = {2, 3, 4}
   \<and> count_list (appended demo_awaiting_confirm
        (snd (broadcast_confirm demo_env (op_msg (Some (py_str ''yes'')))
           demo_awaiting_confirm)))
        SelectUserIds = 1"
proof -
  have y: "msg_text (op_msg (Some (py_str ''yes''))) = Some (py_str ''yes'')"
    by (simp add: demo_yes)
  have d: "fsm_data (fsm demo_awaiting_confirm (key_of (op_msg (Some (py_str ''yes''))))) ''text''
        = Some (Some (py_str ''hello''))"
    by (simp add: demo_yes)
  have u: "upper demo_env (py_str ''yes'') = py_str ''YES''"
    by (rule demo_yes)
  have ok: "fst (send_answer demo_env (tg demo_awaiting_confirm)
        (msg_chat (op_msg (Some (py_str ''yes'')))) BroadcastStarted) = None"
    by (simp add: demo_env_def)
  have tbl: "concurrent demo_env (tg demo_awaiting_confirm) (users demo_awaiting_confirm)
        = [(2, row0), (3, row0), (4, row0)]"
    by (simp add: demo_yes) (simp add: demo_env_def)
  have after: "9 \<in> fst ` set (users
        (snd (broadcast_confirm demo_env (op_msg (Some (py_str ''yes'')))
           demo_awaiting_confirm)))"
    using demo_broadcast_run(2) by (simp flip: set_map)
  show ?thesis
    using y u d ok tbl after
      broadcast_audience_is_the_snapshot [OF y u d, of 9]
    by simp
qed

end
